theory Spec2Isabelle
  imports Main "HOL-Library.Multiset"
begin

section \<open>Strings\<close>

text \<open>
  Python \<open>str\<close> values are modelled as \<open>string\<close>, read as UTF-8 byte sequences, so
  \<open>content.encode("utf8")\<close> and \<open>bytes.decode("utf8")\<close> are the identity and
  \<open>byte_content[s:e]\<close> is a slice of the same list. \<open>str.lower\<close> and \<open>str.strip\<close> are
  modelled on the ASCII range: upper-case ASCII letters are folded and the ASCII
  characters for which \<open>str.isspace\<close> holds are stripped.
\<close>

definition lower_char :: "char \<Rightarrow> char" where
  "lower_char c =
     (let n = (of_char c :: nat) in if 65 \<le> n \<and> n \<le> 90 then char_of (n + 32) else c)"

definition lower :: "string \<Rightarrow> string" where
  "lower s = map lower_char s"

definition isspace :: "char \<Rightarrow> bool" where
  "isspace c = (let n = (of_char c :: nat) in (9 \<le> n \<and> n \<le> 13) \<or> (28 \<le> n \<and> n \<le> 32))"

definition strip :: "string \<Rightarrow> string" where
  "strip s = rev (dropWhile isspace (rev (dropWhile isspace s)))"

text \<open>\<open>bytes[s:e]\<close>: Python slicing clamps to the length and is empty when \<open>e \<le> s\<close>.\<close>

definition slice :: "'a list \<Rightarrow> nat \<Rightarrow> nat \<Rightarrow> 'a list" where
  "slice xs s e = take (e - s) (drop s xs)"

section \<open>ast_analyzer.py\<close>

text \<open>
  The part of a Tree-sitter node that the analyzer reads: its type, its byte span, its
  (row, column) span and its children.
\<close>

datatype node =
  Node (node_type: string) (start_byte: nat) (end_byte: nat)
       (node_start_point: "nat \<times> nat") (node_end_point: "nat \<times> nat") (children: "node list")

record symbol =
  name :: string
  start_point :: "nat \<times> nat"
  end_point :: "nat \<times> nat"
  llm_hint :: string

text \<open>
  \<open>nx.DiGraph\<close> with \<open>add_node(name, start=..., end=...)\<close>: nodes are keyed by name, a
  repeated name overwrites the attributes and keeps its first position. No edges are added.
\<close>

type_synonym dependency_graph = "(string \<times> (nat \<times> nat) \<times> (nat \<times> nat)) list"

fun add_node ::
  "dependency_graph \<Rightarrow> string \<Rightarrow> (nat \<times> nat) \<times> (nat \<times> nat) \<Rightarrow> dependency_graph" where
  "add_node [] k attrs = [(k, attrs)]"
| "add_node ((k', a) # g) k attrs =
     (if k' = k then (k, attrs) # g else (k', a) # add_node g k attrs)"

fun generate_dependency_graph_loop :: "dependency_graph \<Rightarrow> symbol list \<Rightarrow> dependency_graph" where
  "generate_dependency_graph_loop graph [] = graph"
| "generate_dependency_graph_loop graph (func # funcs) =
     generate_dependency_graph_loop
       (add_node graph (name func) (start_point func, end_point func)) funcs"

definition generate_dependency_graph :: "symbol list \<Rightarrow> dependency_graph" where
  "generate_dependency_graph functions = generate_dependency_graph_loop [] functions"

text \<open>
  The dictionary an analysis returns: either \<open>{"error": msg}\<close> or
  \<open>{"functions": ..., "classes": ...}\<close>, to which \<open>analyze_file\<close> adds \<open>"dependency_graph"\<close>.
\<close>

datatype analysis =
  Analysis_Error string
| Analysis (ast_functions: "symbol list") (ast_classes: "symbol list")
    (ast_dependency_graph: "dependency_graph option")

text \<open>
  The parser capability: \<open>Inl e\<close> when \<open>content.encode\<close> or \<open>parser.parse\<close> raises an
  exception whose text is \<open>e\<close>, \<open>Inr root\<close> the root node of the tree otherwise.
  \<open>parser_js\<close> is \<open>None\<close> when the JavaScript grammar could not be loaded.
\<close>

record parsers =
  parser_py :: "string \<Rightarrow> string + node"
  parser_js :: "(string \<Rightarrow> string + node) option"

text \<open>The inner loop \<open>for child in node.children: if child.type == "identifier": ...; break\<close>.\<close>

fun first_identifier :: "node list \<Rightarrow> node option" where
  "first_identifier [] = None"
| "first_identifier (child # rest) =
     (if node_type child = ''identifier'' then Some child else first_identifier rest)"

text \<open>
  The two \<open>traverse\<close> closures differ in the two grammar rule names and the two hint
  sentences only; these are the parameters \<open>frule\<close>, \<open>crule\<close>, \<open>fhint\<close> and \<open>chint\<close>. The
  lists \<open>functions\<close> and \<open>classes\<close> that the closure appends to are passed as a pair.
\<close>

definition visit ::
  "string \<Rightarrow> string \<Rightarrow> (string \<Rightarrow> string) \<Rightarrow> (string \<Rightarrow> string) \<Rightarrow> string \<Rightarrow> bool \<Rightarrow>
   node \<Rightarrow> symbol list \<times> symbol list \<Rightarrow> symbol list \<times> symbol list" where
  "visit frule crule fhint chint byte_content llm_hunt nd acc =
     (if node_type nd = frule then
        (case first_identifier (children nd) of
           None \<Rightarrow> acc
         | Some child \<Rightarrow>
             (let func_name = slice byte_content (start_byte child) (end_byte child);
                  hint = fhint func_name
              in (fst acc @ [\<lparr>name = func_name, start_point = node_start_point nd,
                              end_point = node_end_point nd,
                              llm_hint = (if llm_hunt then hint else '''')\<rparr>], snd acc)))
      else if node_type nd = crule then
        (case first_identifier (children nd) of
           None \<Rightarrow> acc
         | Some child \<Rightarrow>
             (let class_name = slice byte_content (start_byte child) (end_byte child);
                  hint = chint class_name
              in (fst acc, snd acc @ [\<lparr>name = class_name, start_point = node_start_point nd,
                              end_point = node_end_point nd,
                              llm_hint = (if llm_hunt then hint else '''')\<rparr>])))
      else acc)"

fun traverse ::
  "string \<Rightarrow> string \<Rightarrow> (string \<Rightarrow> string) \<Rightarrow> (string \<Rightarrow> string) \<Rightarrow> string \<Rightarrow> bool \<Rightarrow>
   node \<Rightarrow> symbol list \<times> symbol list \<Rightarrow> symbol list \<times> symbol list"
and traverse_children ::
  "string \<Rightarrow> string \<Rightarrow> (string \<Rightarrow> string) \<Rightarrow> (string \<Rightarrow> string) \<Rightarrow> string \<Rightarrow> bool \<Rightarrow>
   node list \<Rightarrow> symbol list \<times> symbol list \<Rightarrow> symbol list \<times> symbol list" where
  "traverse frule crule fhint chint bc h (Node t sb eb sp ep cs) acc =
     traverse_children frule crule fhint chint bc h cs
       (visit frule crule fhint chint bc h (Node t sb eb sp ep cs) acc)"
| "traverse_children frule crule fhint chint bc h [] acc = acc"
| "traverse_children frule crule fhint chint bc h (child # rest) acc =
     traverse_children frule crule fhint chint bc h rest
       (traverse frule crule fhint chint bc h child acc)"

definition py_function_hint :: "string \<Rightarrow> string" where
  "py_function_hint func_name =
     ''Examine the function '' @ [CHR 0x27] @ func_name @ [CHR 0x27] @
     '' to determine its role and business logic.''"

definition py_class_hint :: "string \<Rightarrow> string" where
  "py_class_hint class_name =
     ''Analyze the class '' @ [CHR 0x27] @ class_name @ [CHR 0x27] @
     '' to understand its methods and responsibilities.''"

definition js_function_hint :: "string \<Rightarrow> string" where
  "js_function_hint func_name =
     ''Inspect the JavaScript function '' @ [CHR 0x27] @ func_name @ [CHR 0x27] @
     '' to understand its functionality.''"

definition js_class_hint :: "string \<Rightarrow> string" where
  "js_class_hint class_name =
     ''Examine the JavaScript class '' @ [CHR 0x27] @ class_name @ [CHR 0x27] @
     '' for its properties and methods.''"

definition analyze_python_file_treesitter :: "parsers \<Rightarrow> string \<Rightarrow> bool \<Rightarrow> analysis" where
  "analyze_python_file_treesitter ps content llm_hunt =
     (case parser_py ps content of
        Inl e \<Rightarrow> Analysis_Error (''Tree-sitter parse error: '' @ e)
      | Inr root_node \<Rightarrow>
          (let r = traverse ''function_definition'' ''class_definition''
                     py_function_hint py_class_hint content llm_hunt root_node ([], [])
           in Analysis (fst r) (snd r) None))"

definition analyze_javascript_file_treesitter :: "parsers \<Rightarrow> string \<Rightarrow> bool \<Rightarrow> analysis" where
  "analyze_javascript_file_treesitter ps content llm_hunt =
     (case parser_js ps of
        None \<Rightarrow> Analysis_Error ''JavaScript parser is not available.''
      | Some parse \<Rightarrow>
          (case parse content of
             Inl e \<Rightarrow> Analysis_Error (''Tree-sitter parse error: '' @ e)
           | Inr root_node \<Rightarrow>
               (let r = traverse ''function_declaration'' ''class_declaration''
                          js_function_hint js_class_hint content llm_hunt root_node ([], [])
                in Analysis (fst r) (snd r) None)))"

text \<open>\<open>if "functions" in analysis: analysis["dependency_graph"] = ...\<close>\<close>

definition with_dependency_graph :: "analysis \<Rightarrow> analysis" where
  "with_dependency_graph a =
     (case a of
        Analysis_Error e \<Rightarrow> Analysis_Error e
      | Analysis fs cs g \<Rightarrow> Analysis fs cs (Some (generate_dependency_graph fs)))"

definition analyze_file :: "parsers \<Rightarrow> string \<Rightarrow> string \<Rightarrow> bool \<Rightarrow> analysis" where
  "analyze_file ps content language llm_hunt =
     (if lower language = ''python'' then
        with_dependency_graph (analyze_python_file_treesitter ps content llm_hunt)
      else if lower language = ''javascript'' then
        with_dependency_graph (analyze_javascript_file_treesitter ps content llm_hunt)
      else Analysis_Error (''AST analysis for language '' @ [CHR 0x27] @ language @ [CHR 0x27] @
                           '' is not supported yet.''))"

section \<open>os.path\<close>

text \<open>
  The POSIX versions of \<open>os.path.basename\<close>, \<open>os.path.dirname\<close>, \<open>os.path.join\<close> and of
  the extension part of \<open>os.path.splitext\<close> (the suffix from the last dot of the last
  component, unless only dots precede it).
\<close>

definition basename :: "string \<Rightarrow> string" where
  "basename p = rev (takeWhile (\<lambda>c. c \<noteq> CHR ''/'') (rev p))"

definition dirname :: "string \<Rightarrow> string" where
  "dirname p =
     (let head = rev (dropWhile (\<lambda>c. c \<noteq> CHR ''/'') (rev p))
      in if head \<noteq> [] \<and> \<not> list_all (\<lambda>c. c = CHR ''/'') head
         then rev (dropWhile (\<lambda>c. c = CHR ''/'') (rev head)) else head)"

definition join :: "string \<Rightarrow> string \<Rightarrow> string" where
  "join a b =
     (if b \<noteq> [] \<and> hd b = CHR ''/'' then b
      else if a = [] \<or> last a = CHR ''/'' then a @ b
      else a @ ''/'' @ b)"

definition splitext_ext :: "string \<Rightarrow> string" where
  "splitext_ext p =
     (let r = rev (basename p);
          suffix = takeWhile (\<lambda>c. c \<noteq> CHR ''.'') r;
          stem = drop (Suc (length suffix)) r
      in if CHR ''.'' \<notin> set r \<or> list_all (\<lambda>c. c = CHR ''.'') stem then []
         else CHR ''.'' # rev suffix)"

section \<open>The environment\<close>

text \<open>
  What the program reads from outside itself. \<open>getsize\<close> is \<open>None\<close> and \<open>read_text\<close> is
  \<open>Inl e\<close> where the call raises (\<open>e\<close> the text of the exception); a file is read with
  \<open>errors="replace"\<close>, so undecodable bytes are part of the returned text and no decoding
  error exists. \<open>tiktoken_encode\<close> covers \<open>get_encoding\<close> and \<open>encode\<close>. \<open>unhandled\<close> gives,
  per file, an exception raised inside the File Processor outside every handler of its own
  (the recursion limit in \<open>traverse\<close>, for instance), which a worker's future re-raises.
  \<open>completion_order\<close> is the order in which the worker pool finishes the jobs of a scan.
\<close>

datatype dir_tree = Dir (dir_files: "string list") (dir_subdirs: "(string \<times> dir_tree) list")

record system =
  listdir :: "string \<Rightarrow> string list"
  isdir :: "string \<Rightarrow> bool"
  isfile :: "string \<Rightarrow> bool"
  tree_at :: "string \<Rightarrow> dir_tree"
  getsize :: "string \<Rightarrow> nat option"
  read_text :: "string \<Rightarrow> string + string"
  relpath :: "string \<Rightarrow> string \<Rightarrow> string"
  abspath :: "string \<Rightarrow> string"
  fnmatch :: "string \<Rightarrow> string \<Rightarrow> bool"
  gitignore_spec :: "string \<Rightarrow> string \<Rightarrow> bool"
  tiktoken_encode :: "string \<Rightarrow> string + nat list"
  tiktoken_decode :: "nat list \<Rightarrow> string + string"
  unhandled :: "string \<Rightarrow> string option"
  completion_order :: "string \<Rightarrow> nat list"
  cache_writable :: bool

section \<open>config.py and project_detector.py\<close>

definition SENSITIVE_FILES :: "string set" where
  "SENSITIVE_FILES = {''.env'', ''.env.local'', ''.env.production''}"

definition DEFAULT_PROJECT_TYPE :: string where
  "DEFAULT_PROJECT_TYPE = ''generic''"

definition detect_project_type :: "system \<Rightarrow> string \<Rightarrow> string" where
  "detect_project_type sys repo_path =
     (let files = listdir sys repo_path
      in if list_ex (\<lambda>f. f \<in> set files) [''requirements.txt'', ''setup.py'', ''pyproject.toml'']
         then ''python_backend''
         else if ''package.json'' \<in> set files then ''frontend''
         else ''generic'')"

section \<open>file_scanner.py\<close>

definition get_project_specific_ignore_extensions :: "string \<Rightarrow> string set" where
  "get_project_specific_ignore_extensions project_type =
     (if project_type = ''python_backend'' then {''.pyc'', ''.pyo'', ''.pyd'', ''.so''}
      else if project_type = ''typescript'' then {''.d.ts''}
      else if project_type = ''javascript'' then {}
      else {})"

datatype tokenization =
  Tokenization_Error string
| Tokenization (tokens: "nat list") (token_count: nat) (tokenized_text: string)

definition tokenize_content :: "system \<Rightarrow> string \<Rightarrow> tokenization" where
  "tokenize_content sys content =
     (case tiktoken_encode sys content of
        Inl e \<Rightarrow> Tokenization_Error e
      | Inr token_ids \<Rightarrow>
          (case tiktoken_decode sys token_ids of
             Inl e \<Rightarrow> Tokenization_Error e
           | Inr text \<Rightarrow> Tokenization token_ids (length token_ids) text))"

text \<open>The dictionary \<open>file_info\<close>; the key \<open>"ast_analysis"\<close> is present or absent.\<close>

record file_info =
  relative_path :: string
  filename :: string
  extension :: string
  size_bytes :: nat
  full_content :: string
  tokenization :: tokenization
  file_llm_hint :: string
  ast_analysis :: "analysis option"

definition JS_TS_EXTENSIONS :: "string set" where
  "JS_TS_EXTENSIONS = {''.js'', ''.jsx'', ''.ts'', ''.tsx''}"

definition get_file_info ::
  "system \<Rightarrow> parsers \<Rightarrow> string \<Rightarrow> string \<Rightarrow> string \<Rightarrow> string \<Rightarrow> bool \<Rightarrow> file_info" where
  "get_file_info sys ps file_path base_path project_type language llm_hint_flag =
     (let rel_path = relpath sys file_path base_path;
          fname = basename file_path;
          e = lower (splitext_ext file_path);
          ext = (if e = [] then ''none'' else e);
          size = (case getsize sys file_path of None \<Rightarrow> 0 | Some n \<Rightarrow> n);
          content = (case read_text sys file_path of
                       Inl err \<Rightarrow> ''<<Error reading file: '' @ err @ ''>>''
                     | Inr text \<Rightarrow> text);
          tokenized = tokenize_content sys content;
          file_hint = ''This file '' @ [CHR 0x27] @ fname @ [CHR 0x27] @ '' of type '' @
                      [CHR 0x27] @ ext @ [CHR 0x27] @ '' contains source code. '' @
                      (if project_type = ''python_backend'' \<and> ext = ''.py''
                       then ''Focus on its function and class definitions to extract business logic.''
                       else if project_type \<in> {''javascript'', ''typescript''} \<and> ext \<in> JS_TS_EXTENSIONS
                       then ''Analyze JavaScript/TypeScript constructs for behavior and dependencies.''
                       else []) @
                      '' Full content is provided for detailed analysis.''
      in \<lparr>relative_path = rel_path, filename = fname, extension = ext, size_bytes = size,
          full_content = content, tokenization = tokenized,
          file_llm_hint = (if llm_hint_flag then file_hint else []),
          ast_analysis =
            (if project_type = ''python_backend'' \<and> ext = ''.py''
             then Some (analyze_file ps content ''python'' llm_hint_flag)
             else if project_type \<in> {''javascript'', ''typescript''} \<and> ext \<in> JS_TS_EXTENSIONS
             then Some (analyze_file ps content ''javascript'' llm_hint_flag)
             else None)\<rparr>)"

record scan_result =
  repository_path :: string
  total_files :: nat
  total_size_bytes :: nat
  files :: "file_info list"
  directory_structure :: "(string \<times> string list) list"

text \<open>
  \<open>os.walk(repo_path)\<close>, top-down: the files of a directory, then its sub-directories,
  those matched by \<open>ignore_spec\<close> removed before the walk descends.
\<close>

fun walk :: "system \<Rightarrow> (string \<Rightarrow> bool) \<Rightarrow> string \<Rightarrow> string \<Rightarrow> dir_tree \<Rightarrow> string list"
and walk_dirs ::
  "system \<Rightarrow> (string \<Rightarrow> bool) \<Rightarrow> string \<Rightarrow> string \<Rightarrow> (string \<times> dir_tree) list \<Rightarrow> string list" where
  "walk sys ignore_spec repo_path root (Dir fs ds) =
     map (join root) fs @ walk_dirs sys ignore_spec repo_path root ds"
| "walk_dirs sys ignore_spec repo_path root [] = []"
| "walk_dirs sys ignore_spec repo_path root ((d, t) # ds) =
     (if ignore_spec (join (relpath sys root repo_path) d) then []
      else walk sys ignore_spec repo_path (join root d) t)
     @ walk_dirs sys ignore_spec repo_path root ds"

text \<open>
  The body of the submission loop, one candidate at a time. Each \<open>continue\<close> writes its own
  debug line, which names the filter that matched; the value below is that line, or
  \<open>Submitted\<close> when the candidate reaches \<open>executor.submit\<close>.
\<close>

datatype decision =
  Ignored_by_gitignore
| Ignored_by_CLI_pattern string
| Ignored_sensitive_file
| Ignored_project_extension string
| Excluded_by_include_extensions
| Submitted

text \<open>\<open>for pattern in ignore_patterns: if fnmatch(...): skip = True; break\<close>\<close>

fun first_cli_match :: "system \<Rightarrow> string \<Rightarrow> string list \<Rightarrow> string option" where
  "first_cli_match sys base [] = None"
| "first_cli_match sys base (pattern # rest) =
     (if fnmatch sys base pattern then Some pattern else first_cli_match sys base rest)"

definition decide ::
  "system \<Rightarrow> string \<Rightarrow> (string \<Rightarrow> bool) \<Rightarrow> string list \<Rightarrow> string set \<Rightarrow> string set \<Rightarrow>
   string \<Rightarrow> decision" where
  "decide sys repo_path ignore_spec ignore_patterns include_extensions project_ignore_ext file_path =
     (let rel = relpath sys file_path repo_path
      in if ignore_spec rel then Ignored_by_gitignore
         else case first_cli_match sys (basename file_path) ignore_patterns of
           Some pattern \<Rightarrow> Ignored_by_CLI_pattern pattern
         | None \<Rightarrow>
             if basename file_path \<in> SENSITIVE_FILES then Ignored_sensitive_file
             else (let ext = lower (splitext_ext file_path)
                   in if ext \<in> project_ignore_ext then Ignored_project_extension ext
                      else if include_extensions \<noteq> {} \<and> ext \<notin> include_extensions
                      then Excluded_by_include_extensions
                      else Submitted))"

fun submit_loop ::
  "system \<Rightarrow> string \<Rightarrow> (string \<Rightarrow> bool) \<Rightarrow> string list \<Rightarrow> string set \<Rightarrow> string set \<Rightarrow>
   string list \<Rightarrow> string list" where
  "submit_loop sys repo_path ignore_spec ignore_patterns include_extensions project_ignore_ext [] = []"
| "submit_loop sys repo_path ignore_spec ignore_patterns include_extensions project_ignore_ext
     (file_path # rest) =
     (if decide sys repo_path ignore_spec ignore_patterns include_extensions project_ignore_ext
           file_path = Submitted
      then file_path #
           submit_loop sys repo_path ignore_spec ignore_patterns include_extensions
             project_ignore_ext rest
      else submit_loop sys repo_path ignore_spec ignore_patterns include_extensions
             project_ignore_ext rest)"

text \<open>
  \<open>future.result()\<close> of the job submitted for a file: the record \<open>get_file_info\<close> returns,
  called with the positional arguments \<open>(file_path, repo_path, project_type, "python", llm_hunt)\<close>,
  or the exception that escaped it.
\<close>

definition future_result ::
  "system \<Rightarrow> parsers \<Rightarrow> string \<Rightarrow> string \<Rightarrow> bool \<Rightarrow> string \<Rightarrow> string + file_info" where
  "future_result sys ps repo_path project_type llm_hunt file_path =
     (case unhandled sys file_path of
        Some e \<Rightarrow> Inl e
      | None \<Rightarrow> Inr (get_file_info sys ps file_path repo_path project_type ''python'' llm_hunt))"

text \<open>
  \<open>as_completed\<close>: every pending future is yielded once, in the order the pool finishes
  them. The next one to finish is chosen by the head of the schedule (modulo the number of
  pending futures); when the schedule is used up the rest finish in submission order.
\<close>

function as_completed :: "nat list \<Rightarrow> 'a list \<Rightarrow> 'a list" where
  "as_completed sched [] = []"
| "as_completed [] (x # xs) = x # xs"
| "as_completed (k # ks) (x # xs) =
     (let i = k mod length (x # xs)
      in (x # xs) ! i # as_completed ks (take i (x # xs) @ drop (Suc i) (x # xs)))"
  by pat_completeness auto
termination
  by (relation "measure (\<lambda>(sched, pending). length pending)") auto

text \<open>\<open>directory_structure[rel_dir].append(filename)\<close> on a \<open>defaultdict(list)\<close>.\<close>

fun ds_append :: "(string \<times> string list) list \<Rightarrow> string \<Rightarrow> string \<Rightarrow> (string \<times> string list) list" where
  "ds_append [] key v = [(key, [v])]"
| "ds_append ((k, vs) # ds) key v =
     (if k = key then (k, vs @ [v]) # ds else (k, vs) # ds_append ds key v)"

text \<open>
  The collection loop over the completed futures. The accumulator is the four local
  variables \<open>repo_files\<close>, \<open>total_files\<close>, \<open>total_size\<close> and \<open>directory_structure\<close>; a future
  whose result raises is logged and leaves them unchanged.
\<close>

fun collect ::
  "(string + file_info) list \<Rightarrow>
   file_info list \<times> nat \<times> nat \<times> (string \<times> string list) list \<Rightarrow>
   file_info list \<times> nat \<times> nat \<times> (string \<times> string list) list" where
  "collect [] acc = acc"
| "collect (Inl e # rest) acc = collect rest acc"
| "collect (Inr fi # rest) (repo_files, n, total_size, ds) =
     collect rest
       (repo_files @ [fi], n + 1, total_size + size_bytes fi,
        ds_append ds (dirname (relative_path fi)) (filename fi))"

definition scan_repository ::
  "system \<Rightarrow> parsers \<Rightarrow> string \<Rightarrow> (string \<Rightarrow> bool) \<Rightarrow> string list \<Rightarrow> string set \<Rightarrow> string \<Rightarrow>
   bool \<Rightarrow> scan_result" where
  "scan_repository sys ps repo_path ignore_spec ignore_patterns include_extensions project_type llm_hunt =
     (let project_ignore_ext = get_project_specific_ignore_extensions project_type;
          all_files = walk sys ignore_spec repo_path repo_path (tree_at sys repo_path);
          submitted = submit_loop sys repo_path ignore_spec ignore_patterns include_extensions
                        project_ignore_ext all_files;
          completed = as_completed (completion_order sys repo_path) submitted;
          r = collect (map (future_result sys ps repo_path project_type llm_hunt) completed)
                ([], 0, 0, [])
      in case r of (repo_files, n, total_size, ds) \<Rightarrow>
           \<lparr>repository_path = abspath sys repo_path, total_files = n,
            total_size_bytes = total_size, files = repo_files, directory_structure = ds\<rparr>)"

text \<open>
  The cache file \<open>.repo_scan_cache.pkl\<close>: absent, unreadable by \<open>pickle.load\<close>, or holding a
  pickled scan result.
\<close>

datatype cache_file = Absent | Unreadable | Pickled scan_result

definition load_cache :: "cache_file \<Rightarrow> scan_result option" where
  "load_cache c = (case c of Absent \<Rightarrow> None | Unreadable \<Rightarrow> None | Pickled d \<Rightarrow> Some d)"

definition save_cache :: "system \<Rightarrow> scan_result \<Rightarrow> cache_file \<Rightarrow> cache_file" where
  "save_cache sys d c = (if cache_writable sys then Pickled d else c)"


section \<open>main.py\<close>

text \<open>\<open>ds[key].extend(files)\<close> on a \<open>defaultdict(list)\<close>.\<close>

fun ds_extend ::
  "(string \<times> string list) list \<Rightarrow> string \<Rightarrow> string list \<Rightarrow> (string \<times> string list) list" where
  "ds_extend [] key vs = [(key, vs)]"
| "ds_extend ((k, ws) # ds) key vs =
     (if k = key then (k, ws @ vs) # ds else (k, ws) # ds_extend ds key vs)"

fun ds_extend_items ::
  "(string \<times> string list) list \<Rightarrow> (string \<times> string list) list \<Rightarrow> (string \<times> string list) list" where
  "ds_extend_items ds [] = ds"
| "ds_extend_items ds ((key, fs) # items) = ds_extend_items (ds_extend ds key fs) items"

fun combine_loop ::
  "scan_result list \<Rightarrow> scan_result \<times> (string \<times> string list) list \<Rightarrow>
   scan_result \<times> (string \<times> string list) list" where
  "combine_loop [] acc = acc"
| "combine_loop (res # rest) (combined, ds) =
     combine_loop rest
       (combined\<lparr>total_files := total_files combined + total_files res,
                 total_size_bytes := total_size_bytes combined + total_size_bytes res,
                 files := files combined @ files res\<rparr>,
        ds_extend_items ds (directory_structure res))"

definition combine_results :: "scan_result list \<Rightarrow> scan_result" where
  "combine_results results_list =
     (case combine_loop results_list
             (\<lparr>repository_path = ''Multiple Sources'', total_files = 0, total_size_bytes = 0,
               files = [], directory_structure = []\<rparr>, []) of
        (combined, ds) \<Rightarrow> combined\<lparr>directory_structure := ds\<rparr>)"

text \<open>
  A chunk \<open>{"source": text, "metadata": meta}\<close>; the key \<open>"name"\<close> of the metadata is
  present on symbol chunks only.
\<close>

record metadata =
  meta_file :: string
  meta_path :: string
  meta_type :: string
  meta_name :: "string option"

record chunk =
  source :: string
  metadata :: metadata

text \<open>Python's \<open>a or b\<close> on strings: \<open>a\<close> unless it is empty.\<close>

definition str_or :: "string \<Rightarrow> string \<Rightarrow> string" where
  "str_or a b = (if a \<noteq> [] then a else b)"

text \<open>\<open>ast_data.get("functions", [])\<close> and \<open>ast_data.get("classes", [])\<close>\<close>

definition get_functions :: "analysis \<Rightarrow> symbol list" where
  "get_functions a = (case a of Analysis_Error e \<Rightarrow> [] | Analysis fs cs g \<Rightarrow> fs)"

definition get_classes :: "analysis \<Rightarrow> symbol list" where
  "get_classes a = (case a of Analysis_Error e \<Rightarrow> [] | Analysis fs cs g \<Rightarrow> cs)"

fun function_chunks :: "file_info \<Rightarrow> symbol list \<Rightarrow> chunk list \<Rightarrow> chunk list" where
  "function_chunks file [] chunks = chunks"
| "function_chunks file (func # rest) chunks =
     function_chunks file rest
       (chunks @
        [\<lparr>source = str_or (llm_hint func) (''Function '' @ name func @ '' in '' @ filename file),
          metadata = \<lparr>meta_file = filename file, meta_path = relative_path file,
                      meta_type = ''function'', meta_name = Some (name func)\<rparr>\<rparr>])"

fun class_chunks :: "file_info \<Rightarrow> symbol list \<Rightarrow> chunk list \<Rightarrow> chunk list" where
  "class_chunks file [] chunks = chunks"
| "class_chunks file (cls # rest) chunks =
     class_chunks file rest
       (chunks @
        [\<lparr>source = str_or (llm_hint cls) (''Class '' @ name cls @ '' in '' @ filename file),
          metadata = \<lparr>meta_file = filename file, meta_path = relative_path file,
                      meta_type = ''class'', meta_name = Some (name cls)\<rparr>\<rparr>])"

fun extract_loop :: "file_info list \<Rightarrow> chunk list \<Rightarrow> chunk list" where
  "extract_loop [] chunks = chunks"
| "extract_loop (file # rest) chunks =
     (let chunks1 =
            (case ast_analysis file of
               None \<Rightarrow> chunks
             | Some ast_data \<Rightarrow>
                 class_chunks file (get_classes ast_data)
                   (function_chunks file (get_functions ast_data) chunks));
          file_text = str_or (file_llm_hint file) (full_content file)
      in extract_loop rest
           (chunks1 @
            [\<lparr>source = file_text,
              metadata = \<lparr>meta_file = filename file, meta_path = relative_path file,
                          meta_type = ''file'', meta_name = None\<rparr>\<rparr>]))"

definition extract_texts_for_embedding :: "file_info list \<Rightarrow> chunk list" where
  "extract_texts_for_embedding fs = extract_loop fs []"

subsection \<open>Embedding and clustering\<close>

datatype py_error = IndexError | TypeError string | SystemExit nat | Raised string

text \<open>
  The embedding and clustering capabilities (\<open>SentenceTransformer.encode\<close> after
  \<open>load_model\<close>, and \<open>KMeans(n_clusters).fit_predict\<close>): \<open>Inl e\<close> when the library raises.
\<close>

record 'v embedder =
  encode :: "string list \<Rightarrow> string + 'v list"
  fit_predict :: "'v list \<Rightarrow> int \<Rightarrow> string + int list"

text \<open>\<open>clusters.setdefault(int(label), []).append(idx)\<close> over \<open>enumerate(cluster_labels)\<close>\<close>

fun setdefault_append :: "(int \<times> nat list) list \<Rightarrow> int \<Rightarrow> nat \<Rightarrow> (int \<times> nat list) list" where
  "setdefault_append [] label idx = [(label, [idx])]"
| "setdefault_append ((l, is) # clusters) label idx =
     (if l = label then (l, is @ [idx]) # clusters
      else (l, is) # setdefault_append clusters label idx)"

fun cluster_loop :: "(int \<times> nat list) list \<Rightarrow> nat \<Rightarrow> int list \<Rightarrow> (int \<times> nat list) list" where
  "cluster_loop clusters idx [] = clusters"
| "cluster_loop clusters idx (label # rest) =
     cluster_loop (setdefault_append clusters label idx) (Suc idx) rest"

definition cluster_embeddings :: "'v embedder \<Rightarrow> 'v list \<Rightarrow> int \<Rightarrow> string + (int \<times> nat list) list" where
  "cluster_embeddings emb embeddings num_clusters =
     (case fit_predict emb embeddings num_clusters of
        Inl e \<Rightarrow> Inl e
      | Inr cluster_labels \<Rightarrow> Inr (cluster_loop [] 0 cluster_labels))"

text \<open>
  \<open>for label, indices in clusters.items(): for idx in indices: cluster_assignment[idx] = label\<close>;
  a list assignment out of range raises \<open>IndexError\<close>.
\<close>

fun assign_indices :: "int option list \<Rightarrow> int \<Rightarrow> nat list \<Rightarrow> py_error + int option list" where
  "assign_indices ca label [] = Inr ca"
| "assign_indices ca label (idx # rest) =
     (if idx < length ca then assign_indices (ca[idx := Some label]) label rest
      else Inl IndexError)"

fun assign_clusters :: "int option list \<Rightarrow> (int \<times> nat list) list \<Rightarrow> py_error + int option list" where
  "assign_clusters ca [] = Inr ca"
| "assign_clusters ca ((label, indices) # rest) =
     (case assign_indices ca label indices of
        Inl e \<Rightarrow> Inl e
      | Inr ca' \<Rightarrow> assign_clusters ca' rest)"

record 'v granular_embedding =
  ge_source :: string
  ge_metadata :: metadata
  embedding :: 'v
  cluster :: "int option"

text \<open>
  \<open>for i, chunk in enumerate(text_chunks)\<close>: the index runs over the chunk list and reads
  \<open>embeddings[i]\<close>, then \<open>cluster_assignment[i]\<close>; each read raises \<open>IndexError\<close> out of range.
\<close>

fun granular_loop ::
  "'v list \<Rightarrow> int option list \<Rightarrow> nat \<Rightarrow> chunk list \<Rightarrow> 'v granular_embedding list \<Rightarrow>
   py_error + 'v granular_embedding list" where
  "granular_loop embeddings ca i [] acc = Inr acc"
| "granular_loop embeddings ca i (c # rest) acc =
     (if \<not> i < length embeddings then Inl IndexError
      else if \<not> i < length ca then Inl IndexError
      else granular_loop embeddings ca (Suc i) rest
             (acc @ [\<lparr>ge_source = source c, ge_metadata = metadata c,
                      embedding = embeddings ! i, cluster = ca ! i\<rparr>]))"

text \<open>
  The embedding block of \<open>main\<close> (taken when \<open>--no-embeddings\<close> is not set). It returns what
  is written to \<open>embeddings.json\<close> and the value of \<open>embeddings_output_ref\<close>.
\<close>

definition embedding_block ::
  "'v embedder \<Rightarrow> int \<Rightarrow> file_info list \<Rightarrow>
   py_error + ('v granular_embedding list option \<times> string option)" where
  "embedding_block emb num_clusters fs =
     (let text_chunks = extract_texts_for_embedding fs;
          texts_for_embedding = map source (filter (\<lambda>c. strip (source c) \<noteq> []) text_chunks)
      in if texts_for_embedding \<noteq> [] then
           (case encode emb texts_for_embedding of
              Inl e \<Rightarrow> Inl (Raised e)
            | Inr embeddings \<Rightarrow>
                (case cluster_embeddings emb embeddings num_clusters of
                   Inl e \<Rightarrow> Inl (Raised e)
                 | Inr clusters \<Rightarrow>
                     (case assign_clusters (replicate (length texts_for_embedding) None) clusters of
                        Inl e \<Rightarrow> Inl e
                      | Inr cluster_assignment \<Rightarrow>
                          (case granular_loop embeddings cluster_assignment 0 text_chunks [] of
                             Inl e \<Rightarrow> Inl e
                           | Inr granular_embeddings \<Rightarrow>
                               Inr (Some granular_embeddings, Some ''embeddings.json'')))))
         else Inr (None, None))"

subsection \<open>The driver\<close>

record args =
  arg_project_type :: string
  arg_ignore_files :: "string list"
  arg_ignore :: "string list"
  arg_include_extensions :: "string list"
  arg_no_cache :: bool
  arg_llm_hint :: bool
  arg_cluster :: int
  arg_no_embeddings :: bool

text \<open>
  One round of \<open>for path in source_paths\<close>. The state is the list \<open>scan_results\<close>, the cache
  file and the lines written by \<open>logger.info\<close>. In the branch for a single file the
  dictionary literal evaluates \<open>os.path.getsize(path)\<close> and then calls \<open>get_file_info\<close> with
  the keyword \<open>llm_hunt\<close>, which that function does not have.
\<close>

definition scan_source ::
  "system \<Rightarrow> parsers \<Rightarrow> args \<Rightarrow> (string \<Rightarrow> bool) \<Rightarrow> string list \<Rightarrow> string \<Rightarrow> string \<Rightarrow>
   scan_result list \<times> cache_file \<times> string list \<Rightarrow>
   py_error + (scan_result list \<times> cache_file \<times> string list)" where
  "scan_source sys ps a ignore_spec combined_ignore project_type path st =
     (case st of (scan_results, cache, log) \<Rightarrow>
        if isdir sys path then
          (let cache_data = (if \<not> arg_no_cache a then load_cache cache else None)
           in case cache_data of
                None \<Rightarrow>
                  (let res = scan_repository sys ps path ignore_spec combined_ignore
                               (set (arg_include_extensions a)) project_type (arg_llm_hint a)
                   in Inr (scan_results @ [res], save_cache sys res cache, log))
              | Some cached \<Rightarrow>
                  if repository_path cached = abspath sys path
                  then Inr (scan_results @ [cached], cache,
                            log @ [''Using cached data for '' @ path @ ''.''])
                  else
                    (let res = scan_repository sys ps path ignore_spec combined_ignore
                                 (set (arg_include_extensions a)) project_type (arg_llm_hint a)
                     in Inr (scan_results @ [res], save_cache sys res cache, log)))
        else if isfile sys path then
          (case getsize sys path of
             None \<Rightarrow> Inl (Raised ''OSError'')
           | Some n \<Rightarrow> Inl (TypeError ''get_file_info() got an unexpected keyword argument llm_hunt''))
        else Inr (scan_results, cache, log))"

fun scan_sources ::
  "system \<Rightarrow> parsers \<Rightarrow> args \<Rightarrow> (string \<Rightarrow> bool) \<Rightarrow> string list \<Rightarrow> string \<Rightarrow> string list \<Rightarrow>
   scan_result list \<times> cache_file \<times> string list \<Rightarrow>
   py_error + (scan_result list \<times> cache_file \<times> string list)" where
  "scan_sources sys ps a ignore_spec combined_ignore project_type [] st = Inr st"
| "scan_sources sys ps a ignore_spec combined_ignore project_type (path # rest) st =
     (case scan_source sys ps a ignore_spec combined_ignore project_type path st of
        Inl e \<Rightarrow> Inl e
      | Inr st' \<Rightarrow> scan_sources sys ps a ignore_spec combined_ignore project_type rest st')"

text \<open>
  The output document, together with the content of \<open>embeddings.json\<close> when it is
  written. The fields \<open>project_tree\<close> and \<open>pipeline_definition\<close> are left out: they are
  computed from the merged result and a built-in template and feed nothing else.
\<close>

record 'v output_document =
  out_repository_path :: string
  out_total_files :: nat
  out_total_size_bytes :: nat
  out_directory_structure :: "(string \<times> string list) list"
  out_files :: "file_info list"
  out_embeddings_file :: "string option"
  embeddings_json :: "'v granular_embedding list option"

text \<open>
  \<open>main\<close>, from the expanded \<open>source_paths\<close> on. \<open>combined_ignore\<close> is a Python set; it is
  iterated in the order of the list below.
\<close>

definition main ::
  "system \<Rightarrow> parsers \<Rightarrow> 'v embedder \<Rightarrow> args \<Rightarrow> string list \<Rightarrow> cache_file \<Rightarrow>
   py_error + ('v output_document \<times> cache_file \<times> string list)" where
  "main sys ps emb a source_paths cache =
     (if source_paths = [] then Inl (SystemExit 1)
      else
        (let project_type =
               (if arg_project_type a \<noteq> DEFAULT_PROJECT_TYPE then arg_project_type a
                else (case find (isdir sys) source_paths of
                        None \<Rightarrow> ''generic''
                      | Some first_dir \<Rightarrow> detect_project_type sys first_dir));
             first_dir = (case find (isdir sys) source_paths of
                            None \<Rightarrow> dirname (hd source_paths)
                          | Some d \<Rightarrow> d);
             ignore_spec = gitignore_spec sys first_dir;
             combined_ignore = remdups (arg_ignore_files a @ arg_ignore a)
         in case scan_sources sys ps a ignore_spec combined_ignore project_type source_paths
                   ([], cache, []) of
              Inl e \<Rightarrow> Inl e
            | Inr (scan_results, cache', log) \<Rightarrow>
                (let combined_result = combine_results scan_results
                 in case (if \<not> arg_no_embeddings a
                          then embedding_block emb (arg_cluster a) (files combined_result)
                          else Inr (None, None)) of
                      Inl e \<Rightarrow> Inl e
                    | Inr (granular_embeddings, embeddings_output_ref) \<Rightarrow>
                        Inr (\<lparr>out_repository_path = repository_path combined_result,
                              out_total_files = total_files combined_result,
                              out_total_size_bytes = total_size_bytes combined_result,
                              out_directory_structure = directory_structure combined_result,
                              out_files = files combined_result,
                              out_embeddings_file = embeddings_output_ref,
                              embeddings_json = granular_embeddings\<rparr>, cache', log))))"


section \<open>Specification-side definitions\<close>

text \<open>
  The pre-order listing of a syntax tree, and the symbol that the specification assigns to
  a definition node: named by the first child of type \<open>identifier\<close>, with the position
  span of the node itself; none when the node has no such child.
\<close>

fun preorder :: "node \<Rightarrow> node list" where
  "preorder (Node t sb eb sp ep cs) = Node t sb eb sp ep cs # concat (map preorder cs)"

definition named_symbol :: "(string \<Rightarrow> string) \<Rightarrow> string \<Rightarrow> bool \<Rightarrow> node \<Rightarrow> symbol option" where
  "named_symbol hint bc h nd =
     (case find (\<lambda>c. node_type c = ''identifier'') (children nd) of
        None \<Rightarrow> None
      | Some child \<Rightarrow>
          Some \<lparr>name = slice bc (start_byte child) (end_byte child),
                start_point = node_start_point nd, end_point = node_end_point nd,
                llm_hint = (if h then hint (slice bc (start_byte child) (end_byte child))
                            else [])\<rparr>)"

definition symbols_of_rule ::
  "string \<Rightarrow> (string \<Rightarrow> string) \<Rightarrow> string \<Rightarrow> bool \<Rightarrow> node list \<Rightarrow> symbol list" where
  "symbols_of_rule rule hint bc h nds =
     List.map_filter (\<lambda>nd. if node_type nd = rule then named_symbol hint bc h nd else None) nds"

text \<open>
  The chunks the specification assigns to one file record: one per function, one per
  class, then the file-level chunk.
\<close>

definition symbol_chunk :: "string \<Rightarrow> string \<Rightarrow> file_info \<Rightarrow> symbol \<Rightarrow> chunk" where
  "symbol_chunk kind type_tag file symb =
     \<lparr>source = (if llm_hint symb \<noteq> [] then llm_hint symb
                else kind @ '' '' @ name symb @ '' in '' @ filename file),
      metadata = \<lparr>meta_file = filename file, meta_path = relative_path file,
                  meta_type = type_tag, meta_name = Some (name symb)\<rparr>\<rparr>"

definition file_chunk :: "file_info \<Rightarrow> chunk" where
  "file_chunk file =
     \<lparr>source = (if file_llm_hint file \<noteq> [] then file_llm_hint file else full_content file),
      metadata = \<lparr>meta_file = filename file, meta_path = relative_path file,
                  meta_type = ''file'', meta_name = None\<rparr>\<rparr>"

definition symbols_of_file :: "file_info \<Rightarrow> symbol list \<times> symbol list" where
  "symbols_of_file file =
     (case ast_analysis file of
        None \<Rightarrow> ([], [])
      | Some a \<Rightarrow> (get_functions a, get_classes a))"

definition chunks_of_file :: "file_info \<Rightarrow> chunk list" where
  "chunks_of_file file =
     map (symbol_chunk ''Function'' ''function'' file) (fst (symbols_of_file file)) @
     map (symbol_chunk ''Class'' ''class'' file) (snd (symbols_of_file file)) @
     [file_chunk file]"

text \<open>The invariant of a scan result's totals.\<close>

definition totals_consistent :: "scan_result \<Rightarrow> bool" where
  "totals_consistent r \<longleftrightarrow>
     total_files r = length (files r) \<and>
     total_size_bytes r = sum_list (map size_bytes (files r))"

text \<open>The five exclusion filters of the scan, each on its own.\<close>

definition gitignore_match :: "system \<Rightarrow> string \<Rightarrow> (string \<Rightarrow> bool) \<Rightarrow> string \<Rightarrow> bool" where
  "gitignore_match sys repo_path ignore_spec file_path \<longleftrightarrow>
     ignore_spec (relpath sys file_path repo_path)"

definition cli_match :: "system \<Rightarrow> string list \<Rightarrow> string \<Rightarrow> bool" where
  "cli_match sys ignore_patterns file_path \<longleftrightarrow>
     list_ex (fnmatch sys (basename file_path)) ignore_patterns"

definition sensitive_match :: "string \<Rightarrow> bool" where
  "sensitive_match file_path \<longleftrightarrow> basename file_path \<in> SENSITIVE_FILES"

definition project_extension_match :: "string set \<Rightarrow> string \<Rightarrow> bool" where
  "project_extension_match project_ignore_ext file_path \<longleftrightarrow>
     lower (splitext_ext file_path) \<in> project_ignore_ext"

definition allow_list_match :: "string set \<Rightarrow> string \<Rightarrow> bool" where
  "allow_list_match include_extensions file_path \<longleftrightarrow>
     include_extensions \<noteq> {} \<and> lower (splitext_ext file_path) \<notin> include_extensions"


text \<open>
  A file record carries an error value when its tokenization or its analysis is an error
  dictionary; the record has no other field that can hold one.
\<close>

definition carries_error_value :: "file_info \<Rightarrow> bool" where
  "carries_error_value fi \<longleftrightarrow>
     (case tokenization fi of Tokenization_Error e \<Rightarrow> True | Tokenization ids n text \<Rightarrow> False) \<or>
     (case ast_analysis fi of
        None \<Rightarrow> False
      | Some (Analysis_Error e) \<Rightarrow> True
      | Some (Analysis fs cs g) \<Rightarrow> False)"

section \<open>Example inputs\<close>

text \<open>
  A syntax tree with one named function, one class with two identifier children, and a
  function definition that has no identifier child.
\<close>

definition ex_py_tree :: node where
  "ex_py_tree =
     Node ''module'' 0 38 (0, 0) (3, 0)
       [Node ''function_definition'' 0 15 (0, 0) (0, 15)
          [Node ''def'' 0 3 (0, 0) (0, 3) [],
           Node ''identifier'' 4 7 (0, 4) (0, 7) [],
           Node ''parameters'' 7 9 (0, 7) (0, 9) [Node ''identifier'' 8 8 (0, 8) (0, 8) []],
           Node ''block'' 11 15 (0, 11) (0, 15) []],
        Node ''class_definition'' 16 31 (1, 0) (1, 15)
          [Node ''class'' 16 21 (1, 0) (1, 5) [],
           Node ''identifier'' 22 25 (1, 6) (1, 9) [],
           Node ''identifier'' 27 31 (1, 11) (1, 15) []],
        Node ''function_definition'' 32 37 (2, 0) (2, 5)
          [Node ''def'' 32 35 (2, 0) (2, 3) [], Node ''ERROR'' 36 37 (2, 4) (2, 5) []]]"

definition ex_content :: string where
  "ex_content = ''def foo(): pass class Bar: pass def (''"

definition ex_js_content :: string where
  "ex_js_content = ''function baz() {} class Qux {}''"

definition ex_js_tree :: node where
  "ex_js_tree =
     Node ''program'' 0 30 (0, 0) (0, 30)
       [Node ''function_declaration'' 0 17 (0, 0) (0, 17)
          [Node ''function'' 0 8 (0, 0) (0, 8) [],
           Node ''identifier'' 9 12 (0, 9) (0, 12) [],
           Node ''formal_parameters'' 12 14 (0, 12) (0, 14) [],
           Node ''statement_block'' 15 17 (0, 15) (0, 17) []],
        Node ''class_declaration'' 18 30 (0, 18) (0, 30)
          [Node ''class'' 18 23 (0, 18) (0, 23) [],
           Node ''identifier'' 24 27 (0, 24) (0, 27) [],
           Node ''class_body'' 28 30 (0, 28) (0, 30) []]]"

definition ex_parsers :: parsers where
  "ex_parsers =
     \<lparr>parser_py = (\<lambda>c. if c = ex_content then Inr ex_py_tree else Inl ''parse failed''),
      parser_js = Some (\<lambda>c. if c = ex_js_content then Inr ex_js_tree
                            else Inl ''parse failed'')\<rparr>"


text \<open>Two file records and a scan result holding them.\<close>

definition ex_file_a :: file_info where
  "ex_file_a =
     \<lparr>relative_path = ''a.py'', filename = ''a.py'', extension = ''.py'', size_bytes = 38,
      full_content = ''def foo(): pass class Bar: pass def ('',
      tokenization = Tokenization [1, 2, 3] 3 ''def foo(): pass class Bar: pass def ('',
      file_llm_hint = [],
      ast_analysis = Some (Analysis
        [\<lparr>name = ''foo'', start_point = (0, 0), end_point = (0, 15), llm_hint = []\<rparr>]
        [\<lparr>name = ''Bar'', start_point = (1, 0), end_point = (1, 15),
          llm_hint = ''Analyze the class Bar''\<rparr>]
        (Some [(''foo'', (0, 0), (0, 15))]))\<rparr>"

definition ex_file_empty :: file_info where
  "ex_file_empty =
     \<lparr>relative_path = ''empty.txt'', filename = ''empty.txt'', extension = ''.txt'',
      size_bytes = 0, full_content = [], tokenization = Tokenization [] 0 [],
      file_llm_hint = [], ast_analysis = None\<rparr>"

definition ex_scan_result :: scan_result where
  "ex_scan_result =
     \<lparr>repository_path = ''/repo'', total_files = 2, total_size_bytes = 38,
      files = [ex_file_a, ex_file_empty],
      directory_structure = [([], [''a.py'', ''empty.txt''])]\<rparr>"


text \<open>
  A repository \<open>/repo\<close> with a readable Python file, an unreadable one, files that each of
  the exclusion filters rejects, and an ignored directory; the tokenizer is unavailable.
\<close>

definition ex_system :: system where
  "ex_system =
     \<lparr>listdir = (\<lambda>p. [''package.json'', ''index.js'']),
      isdir = (\<lambda>p. p = ''/repo''),
      isfile = (\<lambda>p. False),
      tree_at = (\<lambda>p. Dir [''a.py'', ''skip.log'', ''LICENSE.md'', ''.env'', ''b.pyc'',
                            ''notes.md'', ''broken.py'']
                         [(''node_modules'', Dir [''x.py''] [])]),
      getsize = (\<lambda>p. if p = ''/repo/a.py'' then Some 38 else None),
      read_text = (\<lambda>p. if p = ''/repo/a.py'' then Inr ex_content else Inl ''Permission denied''),
      relpath = (\<lambda>p base. drop (Suc (length base)) p),
      abspath = (\<lambda>p. p),
      fnmatch = (\<lambda>n pat. n = pat),
      gitignore_spec = (\<lambda>d rel. rel = ''node_modules'' \<or> rel = ''skip.log''),
      tiktoken_encode = (\<lambda>s. Inl ''no encoding''),
      tiktoken_decode = (\<lambda>ids. Inr []),
      unhandled = (\<lambda>p. None),
      completion_order = (\<lambda>p. [1]),
      cache_writable = True\<rparr>"

definition ex_args :: args where
  "ex_args =
     \<lparr>arg_project_type = ''python_backend'', arg_ignore_files = [''LICENSE.md'', ''PRIVACY.md''],
      arg_ignore = [], arg_include_extensions = [''.py'', ''.pyc''], arg_no_cache = False,
      arg_llm_hint = False, arg_cluster = 1, arg_no_embeddings = True\<rparr>"

text \<open>An embedder that maps a text to its length and puts every vector in cluster 0.\<close>

definition ex_embedder :: "nat embedder" where
  "ex_embedder =
     \<lparr>encode = (\<lambda>texts. Inr (map length texts)),
      fit_predict = (\<lambda>vs k. Inr (map (\<lambda>v. 0) vs))\<rparr>"

text \<open>
  The same repository with a tokenizer that works, and parsers that accept every text.
\<close>

definition ex_tokenizing_system :: system where
  "ex_tokenizing_system =
     ex_system\<lparr>tiktoken_encode := (\<lambda>s. Inr [7]), tiktoken_decode := (\<lambda>ids. Inr ''x'')\<rparr>"

definition ex_lenient_parsers :: parsers where
  "ex_lenient_parsers =
     \<lparr>parser_py = (\<lambda>c. Inr (Node ''module'' 0 0 (0, 0) (0, 0) [])), parser_js = None\<rparr>"

section \<open>Verification\<close>

subsection \<open>The symbol extractor\<close>

lemma first_identifier_find:
  "first_identifier cs = find (\<lambda>c. node_type c = ''identifier'') cs"
  by (induction cs) auto

lemma symbols_of_rule_Nil: "symbols_of_rule r hint bc h [] = []"
  by (simp add: symbols_of_rule_def)

lemma symbols_of_rule_append:
  "symbols_of_rule r hint bc h (xs @ ys) =
     symbols_of_rule r hint bc h xs @ symbols_of_rule r hint bc h ys"
  by (simp add: symbols_of_rule_def List.map_filter_def)

lemma symbols_of_rule_single:
  "symbols_of_rule r hint bc h [nd] =
     (if node_type nd = r
      then (case named_symbol hint bc h nd of None \<Rightarrow> [] | Some s \<Rightarrow> [s]) else [])"
  by (simp add: symbols_of_rule_def split: option.splits)

lemma visit_eq:
  assumes "frule \<noteq> crule"
  shows "visit frule crule fhint chint bc h nd acc =
     (fst acc @ symbols_of_rule frule fhint bc h [nd],
      snd acc @ symbols_of_rule crule chint bc h [nd])"
  using assms
  by (cases acc)
     (auto simp: visit_def symbols_of_rule_single named_symbol_def first_identifier_find Let_def
           split: option.splits)

lemma traverse_eq:
  "frule \<noteq> crule \<Longrightarrow> traverse frule crule fhint chint bc h nd acc =
       (fst acc @ symbols_of_rule frule fhint bc h (preorder nd),
        snd acc @ symbols_of_rule crule chint bc h (preorder nd))"
  "frule \<noteq> crule \<Longrightarrow> traverse_children frule crule fhint chint bc h nds acc =
       (fst acc @ symbols_of_rule frule fhint bc h (concat (map preorder nds)),
        snd acc @ symbols_of_rule crule chint bc h (concat (map preorder nds)))"
proof (induction frule crule fhint chint bc h nd acc and frule crule fhint chint bc h nds acc
       rule: traverse_traverse_children.induct)
  case (1 frule crule fhint chint bc h t sb eb sp ep cs acc)
  let ?n = "Node t sb eb sp ep cs"
  let ?v = "visit frule crule fhint chint bc h ?n acc"
  have pre: "preorder ?n = [?n] @ concat (map preorder cs)" by simp
  have v: "?v = (fst acc @ symbols_of_rule frule fhint bc h [?n],
                 snd acc @ symbols_of_rule crule chint bc h [?n])"
    by (rule visit_eq[OF "1.prems"])
  have "traverse frule crule fhint chint bc h ?n acc =
          traverse_children frule crule fhint chint bc h cs ?v" by simp
  also have "\<dots> = (fst ?v @ symbols_of_rule frule fhint bc h (concat (map preorder cs)),
                     snd ?v @ symbols_of_rule crule chint bc h (concat (map preorder cs)))"
    by (rule "1.IH"[OF "1.prems"])
  finally show ?case
    unfolding pre symbols_of_rule_append by (simp add: v)
next
  case (2 frule crule fhint chint bc h acc)
  then show ?case by (simp add: symbols_of_rule_Nil)
next
  case (3 frule crule fhint chint bc h child rest acc)
  then show ?case by (simp add: symbols_of_rule_append)
qed

text \<open>
  Claim C7. For every syntax tree the Symbol Extractor traverses, the functions and classes
  it returns are, in pre-order, the nodes matching the function-definition (resp.
  class-definition) grammar rule that have a child of type \<open>identifier\<close>; each symbol is named
  by the text of the first such child and carries the start and end positions of the node
  itself. A matching node with no identifier child contributes no symbol, and the result is
  an analysis, not an error. This holds for the Python and for the JavaScript extractor.
\<close>

theorem symbol_extractor_first_identifier:
  "(parser_py ps content = Inr root \<longrightarrow>
      analyze_python_file_treesitter ps content h =
        Analysis (symbols_of_rule ''function_definition'' py_function_hint content h (preorder root))
                 (symbols_of_rule ''class_definition'' py_class_hint content h (preorder root))
                 None) \<and>
   (parser_js ps = Some parse \<and> parse content = Inr root \<longrightarrow>
      analyze_javascript_file_treesitter ps content h =
        Analysis (symbols_of_rule ''function_declaration'' js_function_hint content h (preorder root))
                 (symbols_of_rule ''class_declaration'' js_class_hint content h (preorder root))
                 None)"
proof -
  have py: "''function_definition'' \<noteq> ''class_definition''" by simp
  have js: "''function_declaration'' \<noteq> ''class_declaration''" by simp
  show ?thesis
    by (simp add: analyze_python_file_treesitter_def analyze_javascript_file_treesitter_def
                  traverse_eq(1)[OF py] traverse_eq(1)[OF js] symbols_of_rule_Nil)
qed

theorem symbol_extractor_first_identifier_witness:
  "parser_py ex_parsers ex_content = Inr ex_py_tree \<and>
   analyze_python_file_treesitter ex_parsers ex_content False =
     Analysis [\<lparr>name = ''foo'', start_point = (0, 0), end_point = (0, 15), llm_hint = []\<rparr>]
              [\<lparr>name = ''Bar'', start_point = (1, 0), end_point = (1, 15), llm_hint = []\<rparr>] None \<and>
   analyze_javascript_file_treesitter ex_parsers ex_js_content False =
     Analysis [\<lparr>name = ''baz'', start_point = (0, 0), end_point = (0, 17), llm_hint = []\<rparr>]
              [\<lparr>name = ''Qux'', start_point = (0, 18), end_point = (0, 30), llm_hint = []\<rparr>] None"
  using symbol_extractor_first_identifier
          [of ex_parsers ex_content ex_py_tree False]
        symbol_extractor_first_identifier
          [of ex_parsers ex_js_content ex_js_tree False
              "\<lambda>c. if c = ex_js_content then Inr ex_js_tree else Inl ''parse failed''"]
  by (simp add: ex_parsers_def ex_content_def ex_js_content_def ex_py_tree_def ex_js_tree_def
                symbols_of_rule_def named_symbol_def slice_def)

lemma lower_Rust: "lower ''Rust'' = ''rust''"
  by code_simp

text \<open>
  Claim C8. For every text and every declared language whose lower-cased name is neither
  \<open>python\<close> nor \<open>javascript\<close>, \<open>analyze_file\<close> returns the error value whose message says that
  AST analysis for that language is not supported; it returns a value and raises nothing.
\<close>

theorem analyze_file_unsupported_language:
  "lower language \<noteq> ''python'' \<Longrightarrow> lower language \<noteq> ''javascript'' \<Longrightarrow>
   analyze_file ps content language h =
     Analysis_Error (''AST analysis for language '' @ [CHR 0x27] @ language @ [CHR 0x27] @
                     '' is not supported yet.'')"
  by (simp add: analyze_file_def)

theorem analyze_file_unsupported_language_witness:
  "lower ''Rust'' \<noteq> ''python'' \<and> lower ''Rust'' \<noteq> ''javascript'' \<and>
   analyze_file ex_parsers ''fn main() {}'' ''Rust'' True =
     Analysis_Error ''AST analysis for language 'Rust' is not supported yet.''"
  using analyze_file_unsupported_language [of "''Rust''" ex_parsers "''fn main() {}''" True]
  by (simp add: lower_Rust)

subsection \<open>The chunk assembler\<close>

lemma function_chunks_eq:
  "function_chunks file fs chunks = chunks @ map (symbol_chunk ''Function'' ''function'' file) fs"
  by (induction fs arbitrary: chunks) (simp_all add: symbol_chunk_def str_or_def)

lemma class_chunks_eq:
  "class_chunks file cs chunks = chunks @ map (symbol_chunk ''Class'' ''class'' file) cs"
  by (induction cs arbitrary: chunks) (simp_all add: symbol_chunk_def str_or_def)

lemma extract_loop_eq:
  "extract_loop fs chunks = chunks @ concat (map chunks_of_file fs)"
proof (induction fs arbitrary: chunks)
  case Nil
  show ?case by simp
next
  case (Cons f rest)
  show ?case
    by (cases "ast_analysis f")
       (simp_all add: Cons.IH chunks_of_file_def symbols_of_file_def file_chunk_def str_or_def
                      function_chunks_eq class_chunks_eq)
qed

text \<open>
  Claim C5. \<open>extract_texts_for_embedding\<close> emits, file by file, one chunk per function in
  list order, then one chunk per class in list order, then exactly one file-level chunk:
  \<open>N + 1\<close> chunks for a record whose analysis holds \<open>N\<close> symbols. A symbol chunk's text is
  the symbol's hint if non-empty, otherwise the sentence naming the symbol and its file;
  the file-level chunk's text is the file's hint if non-empty, otherwise its full content.
\<close>

theorem chunk_assembler_n_plus_one:
  "extract_texts_for_embedding fs = concat (map chunks_of_file fs) \<and>
   (\<forall>file \<in> set fs. \<forall>a. ast_analysis file = Some a \<longrightarrow>
      chunks_of_file file =
        map (symbol_chunk ''Function'' ''function'' file) (get_functions a) @
        map (symbol_chunk ''Class'' ''class'' file) (get_classes a) @ [file_chunk file] \<and>
      length (chunks_of_file file) = length (get_functions a) + length (get_classes a) + 1)"
  by (simp add: extract_texts_for_embedding_def extract_loop_eq chunks_of_file_def
                symbols_of_file_def)

theorem chunk_assembler_n_plus_one_witness:
  "ex_file_a \<in> set [ex_file_a, ex_file_empty] \<and>
   map source (extract_texts_for_embedding [ex_file_a, ex_file_empty]) =
     [''Function foo in a.py'', ''Analyze the class Bar'',
      ''def foo(): pass class Bar: pass def ('', []] \<and>
   length (chunks_of_file ex_file_a) = 3"
  using chunk_assembler_n_plus_one [of "[ex_file_a, ex_file_empty]"]
  by (simp add: ex_file_a_def ex_file_empty_def chunks_of_file_def symbols_of_file_def
                symbol_chunk_def file_chunk_def get_functions_def get_classes_def)

subsection \<open>Totals of a scan\<close>

lemma collect_totals:
  "collect outcomes (fs, n, t, ds) = (fs', n', t', ds') \<Longrightarrow>
   n = length fs \<Longrightarrow> t = sum_list (map size_bytes fs) \<Longrightarrow>
   n' = length fs' \<and> t' = sum_list (map size_bytes fs')"
proof (induction outcomes arbitrary: fs n t ds)
  case Nil
  then show ?case by auto
next
  case (Cons outcome rest)
  show ?case
  proof (cases outcome)
    case (Inl e)
    with Cons show ?thesis by simp
  next
    case (Inr fi)
    with Cons.prems have
      "collect rest (fs @ [fi], n + 1, t + size_bytes fi,
                     ds_append ds (dirname (relative_path fi)) (filename fi)) = (fs', n', t', ds')"
      by simp
    from Cons.IH[OF this] Cons.prems(2,3) show ?thesis by simp
  qed
qed

lemma scan_repository_totals:
  "totals_consistent (scan_repository sys ps repo_path ignore_spec pats incl pt h)"
proof -
  let ?outcomes = "map (future_result sys ps repo_path pt h)
      (as_completed (completion_order sys repo_path)
        (submit_loop sys repo_path ignore_spec pats incl
           (get_project_specific_ignore_extensions pt)
           (walk sys ignore_spec repo_path repo_path (tree_at sys repo_path))))"
  obtain fs n t ds where c: "collect ?outcomes ([], 0, 0, []) = (fs, n, t, ds)"
    by (metis prod_cases4)
  from collect_totals[OF c] have "n = length fs \<and> t = sum_list (map size_bytes fs)" by simp
  with c show ?thesis
    by (simp add: scan_repository_def totals_consistent_def Let_def)
qed

lemma combine_loop_totals:
  "combine_loop rs (c, ds) = (c', ds') \<Longrightarrow> \<forall>r \<in> set rs. totals_consistent r \<Longrightarrow>
   totals_consistent c \<Longrightarrow> totals_consistent c'"
proof (induction rs arbitrary: c ds)
  case Nil
  then show ?case by simp
next
  case (Cons r rest)
  let ?c = "c\<lparr>total_files := total_files c + total_files r,
              total_size_bytes := total_size_bytes c + total_size_bytes r,
              files := files c @ files r\<rparr>"
  from Cons.prems(1) have
    step: "combine_loop rest (?c, ds_extend_items ds (directory_structure r)) = (c', ds')"
    by simp
  from Cons.prems(2,3) have "totals_consistent ?c"
    by (simp add: totals_consistent_def)
  with Cons.IH[OF step] Cons.prems(2) show ?case by simp
qed

lemma combine_results_totals:
  assumes "\<forall>r \<in> set rs. totals_consistent r"
  shows "totals_consistent (combine_results rs)"
proof -
  let ?init = "\<lparr>repository_path = ''Multiple Sources'', total_files = 0, total_size_bytes = 0,
                files = [], directory_structure = []\<rparr>"
  obtain c ds where l: "combine_loop rs (?init, []) = (c, ds)" by (metis surj_pair)
  have "totals_consistent ?init" by (simp add: totals_consistent_def)
  from combine_loop_totals[OF l assms this] have "totals_consistent c" .
  then have "totals_consistent (c\<lparr>directory_structure := ds\<rparr>)"
    by (simp add: totals_consistent_def)
  with l show ?thesis by (simp add: combine_results_def)
qed

text \<open>
  Claim C3. The result of \<open>scan_repository\<close> satisfies \<open>total_files = len(files)\<close> and
  \<open>total_size_bytes = sum of size_bytes over files\<close>, whatever the order in which the
  worker pool completes the jobs; and \<open>combine_results\<close> of scan results that satisfy the
  two equations satisfies them as well.
\<close>

theorem totals_match_files:
  "totals_consistent
     (scan_repository (sys\<lparr>completion_order := order\<rparr>) ps repo_path ignore_spec pats incl pt h) \<and>
   ((\<forall>r \<in> set rs. totals_consistent r) \<longrightarrow> totals_consistent (combine_results rs))"
  using scan_repository_totals combine_results_totals by blast

theorem totals_match_files_witness:
  "totals_consistent ex_scan_result \<and>
   totals_consistent (combine_results [ex_scan_result, ex_scan_result]) \<and>
   total_files (combine_results [ex_scan_result, ex_scan_result]) = 4"
  using totals_match_files [where rs = "[ex_scan_result, ex_scan_result]"]
  by (simp add: totals_consistent_def ex_scan_result_def ex_file_a_def ex_file_empty_def
                combine_results_def)


subsection \<open>The repository path of a merged result\<close>

lemma combine_loop_repository_path:
  "repository_path (fst (combine_loop rs (c, ds))) = repository_path c"
  by (induction rs arbitrary: c ds) simp_all

lemma combine_results_repository_path:
  "repository_path (combine_results rs) = ''Multiple Sources''"
proof -
  let ?init = "\<lparr>repository_path = ''Multiple Sources'', total_files = 0, total_size_bytes = 0,
                files = [], directory_structure = []\<rparr>"
  have "repository_path (fst (combine_loop rs (?init, []))) = ''Multiple Sources''"
    by (simp add: combine_loop_repository_path)
  then show ?thesis
    by (cases "combine_loop rs (?init, [])") (simp add: combine_results_def)
qed

text \<open>
  Claim C10. For every list of scan results, a list of exactly one result included,
  \<open>combine_results\<close> sets \<open>repository_path\<close> to the literal \<open>Multiple Sources\<close>. Whenever
  \<open>main\<close> produces its output document, the document's repository path is that literal,
  and so differs from the absolute path of every scanned root.
\<close>

theorem combined_path_is_multiple_sources:
  "repository_path (combine_results rs) = ''Multiple Sources'' \<and>
   (main sys ps emb a source_paths cache = Inr (out, cache', log) \<longrightarrow>
      out_repository_path out = ''Multiple Sources'' \<and>
      (\<forall>p \<in> set source_paths. hd (abspath sys p) = CHR ''/'' \<longrightarrow>
         out_repository_path out \<noteq> abspath sys p))"
proof -
  have "out_repository_path out = ''Multiple Sources''"
    if "main sys ps emb a source_paths cache = Inr (out, cache', log)"
    using that
    by (auto simp: main_def Let_def combine_results_repository_path
             split: if_splits sum.splits prod.splits)
  moreover have "hd ''Multiple Sources'' \<noteq> CHR ''/''" by simp
  then have "''Multiple Sources'' \<noteq> abspath sys p" if "hd (abspath sys p) = CHR ''/''" for p
    using that by metis
  ultimately show ?thesis
    by (simp add: combine_results_repository_path)
qed


theorem combined_path_is_multiple_sources_witness:
  "main ex_system ex_parsers ex_embedder ex_args [''/repo''] Absent =
     Inr (fst (projr (main ex_system ex_parsers ex_embedder ex_args [''/repo''] Absent)),
          snd (projr (main ex_system ex_parsers ex_embedder ex_args [''/repo''] Absent))) \<and>
   ''/repo'' \<in> set [''/repo''] \<and> hd (abspath ex_system ''/repo'') = CHR ''/'' \<and>
   repository_path (combine_results [ex_scan_result]) = ''Multiple Sources'' \<and>
   out_repository_path (fst (projr (main ex_system ex_parsers ex_embedder ex_args [''/repo''] Absent)))
     = ''Multiple Sources'' \<and>
   out_repository_path (fst (projr (main ex_system ex_parsers ex_embedder ex_args [''/repo''] Absent)))
     \<noteq> abspath ex_system ''/repo''"
proof -
  let ?m = "main ex_system ex_parsers ex_embedder ex_args [''/repo''] Absent"
  have shape: "?m = Inr (fst (projr ?m), snd (projr ?m))"
    by (simp add: main_def scan_source_def ex_system_def ex_args_def load_cache_def Let_def
             split: prod.splits)
  have abs: "abspath ex_system ''/repo'' = ''/repo''"
    by (simp add: ex_system_def)
  have dir: "hd (abspath ex_system ''/repo'') = CHR ''/''"
    by (simp add: abs)
  from combined_path_is_multiple_sources
         [of "[ex_scan_result]" ex_system ex_parsers ex_embedder ex_args "[''/repo'']" Absent
             "fst (projr ?m)" "fst (snd (projr ?m))" "snd (snd (projr ?m))"]
       shape dir
  show ?thesis by (simp add: abs)
qed

subsection \<open>The scan cache\<close>

text \<open>
  Claim C9. For a directory root scanned with caching enabled: when the cache file holds a
  result whose \<open>repository_path\<close> equals the absolute path of the root, that result is used
  as it is, whatever files, totals and structure it records (nothing else of it is
  compared with the file system), the cache is left as it was and the use is logged; when the
  cache is absent, unreadable or holds a result with another path, the root is scanned
  afresh and the fresh result is saved.
\<close>

theorem cache_hit_iff_same_path:
  "isdir sys path \<Longrightarrow> \<not> arg_no_cache a \<Longrightarrow>
   (\<forall>c. load_cache cache = Some c \<and> repository_path c = abspath sys path \<longrightarrow>
      scan_source sys ps a ignore_spec pats pt path (rs, cache, log) =
        Inr (rs @ [c], cache, log @ [''Using cached data for '' @ path @ ''.''])) \<and>
   ((\<forall>c. load_cache cache = Some c \<longrightarrow> repository_path c \<noteq> abspath sys path) \<longrightarrow>
      scan_source sys ps a ignore_spec pats pt path (rs, cache, log) =
        Inr (rs @ [scan_repository sys ps path ignore_spec pats
                     (set (arg_include_extensions a)) pt (arg_llm_hint a)],
             save_cache sys
               (scan_repository sys ps path ignore_spec pats
                  (set (arg_include_extensions a)) pt (arg_llm_hint a)) cache,
             log)) \<and>
   ((\<exists>c. load_cache cache = Some c \<and> repository_path c = abspath sys path) \<longleftrightarrow>
      (\<exists>st. scan_source sys ps a ignore_spec pats pt path (rs, cache, log) = Inr st \<and>
            snd (snd st) = log @ [''Using cached data for '' @ path @ ''.'']))"
  by (cases "load_cache cache") (simp_all add: scan_source_def Let_def)

theorem cache_hit_iff_same_path_witness:
  "isdir ex_system ''/repo'' \<and> \<not> arg_no_cache ex_args \<and>
   load_cache (Pickled ex_scan_result) = Some ex_scan_result \<and>
   repository_path ex_scan_result = abspath ex_system ''/repo'' \<and>
   scan_source ex_system ex_parsers ex_args (\<lambda>p. False) [] ''generic'' ''/repo''
       ([], Pickled ex_scan_result, []) =
     Inr ([ex_scan_result], Pickled ex_scan_result, [''Using cached data for /repo.'']) \<and>
   load_cache (Pickled (ex_scan_result\<lparr>repository_path := ''/other''\<rparr>)) =
     Some (ex_scan_result\<lparr>repository_path := ''/other''\<rparr>) \<and>
   ''/other'' \<noteq> abspath ex_system ''/repo'' \<and>
   scan_source ex_system ex_parsers ex_args (\<lambda>p. False) [] ''generic'' ''/repo''
       ([], Pickled (ex_scan_result\<lparr>repository_path := ''/other''\<rparr>), []) =
     Inr ([scan_repository ex_system ex_parsers ''/repo'' (\<lambda>p. False) []
             (set (arg_include_extensions ex_args)) ''generic'' (arg_llm_hint ex_args)],
          Pickled (scan_repository ex_system ex_parsers ''/repo'' (\<lambda>p. False) []
             (set (arg_include_extensions ex_args)) ''generic'' (arg_llm_hint ex_args)),
          [])"
proof -
  have d: "isdir ex_system ''/repo''" by (simp add: ex_system_def)
  have n: "\<not> arg_no_cache ex_args" by (simp add: ex_args_def)
  have ab: "abspath ex_system ''/repo'' = ''/repo''" by (simp add: ex_system_def)
  have w: "cache_writable ex_system" by (simp add: ex_system_def)
  have rp: "repository_path ex_scan_result = ''/repo''" by (simp add: ex_scan_result_def)
  from cache_hit_iff_same_path
         [OF d n, of "Pickled ex_scan_result" ex_parsers "\<lambda>p. False" "[]" "''generic''" "[]" "[]"]
       cache_hit_iff_same_path
         [OF d n, of "Pickled (ex_scan_result\<lparr>repository_path := ''/other''\<rparr>)"
                     ex_parsers "\<lambda>p. False" "[]" "''generic''" "[]" "[]"]
  show ?thesis
    by (simp add: d n ab w rp load_cache_def save_cache_def)
qed

subsection \<open>Project type and symbol extraction\<close>

text \<open>
  Claim C2, evaluated on the code. With the project type \<open>frontend\<close>, which is the label
  \<open>detect_project_type\<close> returns for a directory holding \<open>package.json\<close>, the record that
  \<open>get_file_info\<close> returns has no \<open>ast_analysis\<close> field, for every file, a file with
  extension \<open>.js\<close> included; only the labels \<open>javascript\<close> and \<open>typescript\<close>, which the
  classifier never returns, lead to the JavaScript extractor.
\<close>

theorem frontend_label_never_analyzed:
  "ast_analysis (get_file_info sys ps file_path base_path ''frontend'' language h) = None \<and>
   detect_project_type ex_system ''/repo'' = ''frontend'' \<and>
   extension (get_file_info ex_system ex_parsers ''/repo/index.js'' ''/repo''
                (detect_project_type ex_system ''/repo'') ''python'' False) = ''.js'' \<and>
   ast_analysis (get_file_info ex_system ex_parsers ''/repo/index.js'' ''/repo''
                   (detect_project_type ex_system ''/repo'') ''python'' False) = None \<and>
   ast_analysis (get_file_info ex_system ex_parsers ''/repo/index.js'' ''/repo''
                   ''javascript'' ''python'' False) \<noteq> None"
proof -
  have general: "ast_analysis (get_file_info sys ps file_path base_path ''frontend'' language h) = None"
    for sys ps file_path base_path language h
    by (simp add: get_file_info_def Let_def)
  have det: "detect_project_type ex_system ''/repo'' = ''frontend''"
    by (simp add: detect_project_type_def ex_system_def)
  have ext: "lower (splitext_ext ''/repo/index.js'') = ''.js''"
    by code_simp
  have e: "extension (get_file_info ex_system ex_parsers ''/repo/index.js'' ''/repo''
                ''frontend'' ''python'' False) = ''.js''"
    by (simp add: get_file_info_def Let_def ext)
  have j: "ast_analysis (get_file_info ex_system ex_parsers ''/repo/index.js'' ''/repo''
                   ''javascript'' ''python'' False) \<noteq> None"
    by (simp add: get_file_info_def Let_def ext JS_TS_EXTENSIONS_def)
  show ?thesis
    by (simp only: det general e j simp_thms)
qed


subsection \<open>The embedding block\<close>

lemma assign_indices_length:
  "assign_indices ca label idxs = Inr ca' \<Longrightarrow> length ca' = length ca"
  by (induction idxs arbitrary: ca) (auto split: if_splits)

lemma assign_indices_error:
  "assign_indices ca label idxs = Inl e \<Longrightarrow> e = IndexError"
  by (induction idxs arbitrary: ca) (auto split: if_splits)

lemma assign_clusters_length:
  "assign_clusters ca clusters = Inr ca' \<Longrightarrow> length ca' = length ca"
proof (induction clusters arbitrary: ca)
  case Nil
  then show ?case by simp
next
  case (Cons c rest)
  obtain label idxs where c: "c = (label, idxs)" by (cases c)
  from Cons.prems c obtain ca1 where
    a: "assign_indices ca label idxs = Inr ca1" and r: "assign_clusters ca1 rest = Inr ca'"
    by (auto split: sum.splits)
  from Cons.IH[OF r] assign_indices_length[OF a] show ?case by simp
qed

lemma assign_clusters_error:
  "assign_clusters ca clusters = Inl e \<Longrightarrow> e = IndexError"
proof (induction clusters arbitrary: ca)
  case Nil
  then show ?case by simp
next
  case (Cons c rest)
  obtain label idxs where c: "c = (label, idxs)" by (cases c)
  show ?case
  proof (cases "assign_indices ca label idxs")
    case (Inl e')
    with Cons.prems c show ?thesis by (simp add: assign_indices_error)
  next
    case (Inr ca1)
    with Cons.prems c have "assign_clusters ca1 rest = Inl e" by simp
    then show ?thesis by (rule Cons.IH)
  qed
qed

lemma granular_loop_overrun:
  "i \<le> length ca \<Longrightarrow> length ca < i + length cs \<Longrightarrow>
   granular_loop embeddings ca i cs acc = Inl IndexError"
proof (induction cs arbitrary: i acc)
  case Nil
  then show ?case by simp
next
  case (Cons c rest)
  show ?case
  proof (cases "i < length embeddings \<and> i < length ca")
    case True
    from True have le: "Suc i \<le> length ca" by simp
    from Cons.prems have "length ca < Suc i + length rest" by simp
    from Cons.IH[OF le this] True show ?thesis by simp
  next
    case False
    then show ?thesis by auto
  qed
qed

lemma filter_drops_one:
  assumes "\<exists>x \<in> set xs. \<not> P x"
  shows "length (filter P xs) < length xs"
proof -
  from assms obtain x where "x \<in> set xs" "\<not> P x" by blast
  then show ?thesis by (rule length_filter_less)
qed

lemma strip_Nil: "strip [] = []"
  by (simp add: strip_def)

lemma strip_ex_content: "strip ex_content \<noteq> []"
  unfolding ex_content_def by code_simp

text \<open>
  Claim C1, evaluated on the code. The embedding block embeds only the chunks whose text is
  not blank, but then walks the unfiltered chunk list and reads the vector and the cluster
  label at the position of each chunk in that list. Whenever the chunk list holds a blank
  chunk and a chunk that is not blank, and the embedding and clustering capabilities return,
  the block raises \<open>IndexError\<close>: no chunk receives a vector or a cluster label and
  \<open>embeddings.json\<close> is not written.
\<close>

theorem embedding_block_index_error:
  assumes blank: "\<exists>c \<in> set (extract_texts_for_embedding fs). strip (source c) = []"
    and nonblank: "\<exists>c \<in> set (extract_texts_for_embedding fs). strip (source c) \<noteq> []"
    and enc: "encode emb (map source (filter (\<lambda>c. strip (source c) \<noteq> [])
                                   (extract_texts_for_embedding fs))) = Inr vs"
    and fit: "fit_predict emb vs num_clusters = Inr labels"
  shows "embedding_block emb num_clusters fs = Inl IndexError"
proof -
  let ?chunks = "extract_texts_for_embedding fs"
  let ?kept = "filter (\<lambda>c. strip (source c) \<noteq> []) ?chunks"
  let ?texts = "map source ?kept"
  let ?ca0 = "replicate (length ?texts) (None :: int option)"
  from nonblank have ne: "?texts \<noteq> []" by (auto simp: filter_empty_conv)
  from blank have short: "length ?texts < length ?chunks"
    using filter_drops_one[of ?chunks "\<lambda>c. strip (source c) \<noteq> []"] by auto
  from fit have cl: "cluster_embeddings emb vs num_clusters = Inr (cluster_loop [] 0 labels)"
    by (simp add: cluster_embeddings_def)
  show ?thesis
  proof (cases "assign_clusters ?ca0 (cluster_loop [] 0 labels)")
    case (Inl e)
    then have "e = IndexError" by (rule assign_clusters_error)
    with Inl ne enc cl show ?thesis
      by (simp add: embedding_block_def Let_def)
  next
    case (Inr ca)
    from assign_clusters_length[OF Inr] have "length ca = length ?texts" by simp
    with short have "length ca < 0 + length ?chunks" by simp
    then have "granular_loop vs ca 0 ?chunks [] = Inl IndexError"
      by (rule granular_loop_overrun[OF le0])
    with Inr ne enc cl show ?thesis
      by (simp add: embedding_block_def Let_def)
  qed
qed

theorem embedding_block_index_error_witness:
  "embedding_block ex_embedder 1 [ex_file_empty, ex_file_a\<lparr>ast_analysis := None\<rparr>] = Inl IndexError"
proof -
  let ?fs = "[ex_file_empty, ex_file_a\<lparr>ast_analysis := None\<rparr>]"
  have srcs: "extract_texts_for_embedding ?fs =
     [\<lparr>source = [], metadata = \<lparr>meta_file = ''empty.txt'', meta_path = ''empty.txt'',
                                 meta_type = ''file'', meta_name = None\<rparr>\<rparr>,
      \<lparr>source = ex_content, metadata = \<lparr>meta_file = ''a.py'', meta_path = ''a.py'',
                                 meta_type = ''file'', meta_name = None\<rparr>\<rparr>]"
    by (simp add: extract_texts_for_embedding_def ex_file_empty_def ex_file_a_def str_or_def
                  ex_content_def)
  have b: "\<exists>c \<in> set (extract_texts_for_embedding ?fs). strip (source c) = []"
    by (simp add: srcs strip_Nil)
  have n: "\<exists>c \<in> set (extract_texts_for_embedding ?fs). strip (source c) \<noteq> []"
    by (simp add: srcs strip_ex_content)
  have e: "encode ex_embedder (map source (filter (\<lambda>c. strip (source c) \<noteq> [])
             (extract_texts_for_embedding ?fs))) = Inr [length ex_content]"
    by (simp add: srcs strip_Nil strip_ex_content ex_embedder_def)
  have f: "fit_predict ex_embedder [length ex_content] 1 = Inr [0]"
    by (simp add: ex_embedder_def)
  show ?thesis
    by (rule embedding_block_index_error[OF b n e f])
qed


subsection \<open>The submission and collection loops\<close>

lemma first_cli_match_None:
  "first_cli_match sys base pats = None \<longleftrightarrow> \<not> list_ex (fnmatch sys base) pats"
  by (induction pats) auto

lemma first_cli_match_Some:
  "first_cli_match sys base pats = Some pat \<Longrightarrow> pat \<in> set pats \<and> fnmatch sys base pat"
  by (induction pats) (auto split: if_splits)

lemma decide_cases:
  "decide sys repo spec pats incl pext p =
     (if gitignore_match sys repo spec p then Ignored_by_gitignore
      else case first_cli_match sys (basename p) pats of
        Some pat \<Rightarrow> Ignored_by_CLI_pattern pat
      | None \<Rightarrow>
          if sensitive_match p then Ignored_sensitive_file
          else if project_extension_match pext p
          then Ignored_project_extension (lower (splitext_ext p))
          else if allow_list_match incl p then Excluded_by_include_extensions
          else Submitted)"
  by (simp add: decide_def gitignore_match_def sensitive_match_def project_extension_match_def
                allow_list_match_def Let_def split: option.splits)

lemma decide_Submitted:
  "decide sys repo spec pats incl pext p = Submitted \<longleftrightarrow>
     \<not> gitignore_match sys repo spec p \<and> \<not> cli_match sys pats p \<and> \<not> sensitive_match p \<and>
     \<not> project_extension_match pext p \<and> \<not> allow_list_match incl p"
proof (cases "first_cli_match sys (basename p) pats")
  case None
  then have "\<not> cli_match sys pats p"
    by (simp add: cli_match_def first_cli_match_None)
  with None show ?thesis by (simp add: decide_cases)
next
  case (Some pat)
  then have "cli_match sys pats p"
    using first_cli_match_None[of sys "basename p" pats] by (simp add: cli_match_def)
  with Some show ?thesis by (simp add: decide_cases)
qed

lemma submit_loop_filter:
  "submit_loop sys repo spec pats incl pext all_files =
     filter (\<lambda>p. decide sys repo spec pats incl pext p = Submitted) all_files"
  by (induction all_files) simp_all

lemma mset_as_completed: "mset (as_completed sched xs) = mset xs"
proof (induction sched xs rule: as_completed.induct)
  case (1 sched)
  show ?case by simp
next
  case (2 x xs)
  show ?case by simp
next
  case (3 k ks x xs)
  let ?l = "x # xs"
  let ?i = "k mod length ?l"
  have i: "?i < length ?l" by simp
  have "mset (as_completed (k # ks) ?l) =
          {#?l ! ?i#} + mset (as_completed ks (take ?i ?l @ drop (Suc ?i) ?l))"
    by (simp add: Let_def)
  also have "\<dots> = {#?l ! ?i#} + mset (take ?i ?l @ drop (Suc ?i) ?l)"
    using "3.IH"[of ?i] by simp
  also have "\<dots> = mset (take ?i ?l @ ?l ! ?i # drop (Suc ?i) ?l)"
    by simp
  also have "\<dots> = mset ?l"
    using id_take_nth_drop[OF i] by simp
  finally show ?case .
qed

lemma collect_files:
  "fst (collect outcomes (fs, n, t, ds)) = fs @ map projr (filter (\<lambda>r. \<not> isl r) outcomes)"
proof (induction outcomes arbitrary: fs n t ds)
  case Nil
  show ?case by simp
next
  case (Cons r rest)
  show ?case
    by (cases r) (simp_all add: Cons.IH)
qed

lemma scan_repository_files:
  "files (scan_repository sys ps repo spec pats incl pt h) =
     map (\<lambda>p. get_file_info sys ps p repo pt ''python'' h)
       (filter (\<lambda>p. unhandled sys p = None)
          (as_completed (completion_order sys repo)
             (submit_loop sys repo spec pats incl (get_project_specific_ignore_extensions pt)
                (walk sys spec repo repo (tree_at sys repo)))))"
proof -
  let ?done = "as_completed (completion_order sys repo)
             (submit_loop sys repo spec pats incl (get_project_specific_ignore_extensions pt)
                (walk sys spec repo repo (tree_at sys repo)))"
  let ?outcomes = "map (future_result sys ps repo pt h) ?done"
  have sel: "map projr (filter (\<lambda>r. \<not> isl r) (map (future_result sys ps repo pt h) xs)) =
             map (\<lambda>p. get_file_info sys ps p repo pt ''python'' h)
               (filter (\<lambda>p. unhandled sys p = None) xs)" for xs
    by (induction xs) (auto simp: future_result_def split: option.splits)
  have "files (scan_repository sys ps repo spec pats incl pt h) =
          fst (collect ?outcomes ([], 0, 0, []))"
    by (simp add: scan_repository_def Let_def split: prod.splits)
  also have "\<dots> = map projr (filter (\<lambda>r. \<not> isl r) ?outcomes)"
    by (simp add: collect_files)
  finally show ?thesis by (simp only: sel)
qed

text \<open>The example repository, evaluated.\<close>

lemma ex_walk:
  "walk ex_system (gitignore_spec ex_system ''/repo'') ''/repo'' ''/repo''
     (tree_at ex_system ''/repo'') =
   [''/repo/a.py'', ''/repo/skip.log'', ''/repo/LICENSE.md'', ''/repo/.env'', ''/repo/b.pyc'',
    ''/repo/notes.md'', ''/repo/broken.py'']"
  by (simp add: ex_system_def join_def)

lemma ex_decide:
  "decide ex_system ''/repo'' (gitignore_spec ex_system ''/repo'') [''LICENSE.md'', ''PRIVACY.md'']
     {''.py'', ''.pyc''} (get_project_specific_ignore_extensions ''python_backend'')
     ''/repo/skip.log'' = Ignored_by_gitignore"
  "decide ex_system ''/repo'' (gitignore_spec ex_system ''/repo'') [''LICENSE.md'', ''PRIVACY.md'']
     {''.py'', ''.pyc''} (get_project_specific_ignore_extensions ''python_backend'')
     ''/repo/LICENSE.md'' = Ignored_by_CLI_pattern ''LICENSE.md''"
  "decide ex_system ''/repo'' (gitignore_spec ex_system ''/repo'') [''LICENSE.md'', ''PRIVACY.md'']
     {''.py'', ''.pyc''} (get_project_specific_ignore_extensions ''python_backend'')
     ''/repo/.env'' = Ignored_sensitive_file"
  "decide ex_system ''/repo'' (gitignore_spec ex_system ''/repo'') [''LICENSE.md'', ''PRIVACY.md'']
     {''.py'', ''.pyc''} (get_project_specific_ignore_extensions ''python_backend'')
     ''/repo/b.pyc'' = Ignored_project_extension ''.pyc''"
  "decide ex_system ''/repo'' (gitignore_spec ex_system ''/repo'') [''LICENSE.md'', ''PRIVACY.md'']
     {''.py'', ''.pyc''} (get_project_specific_ignore_extensions ''python_backend'')
     ''/repo/notes.md'' = Excluded_by_include_extensions"
  "decide ex_system ''/repo'' (gitignore_spec ex_system ''/repo'') [''LICENSE.md'', ''PRIVACY.md'']
     {''.py'', ''.pyc''} (get_project_specific_ignore_extensions ''python_backend'')
     ''/repo/a.py'' = Submitted"
  "decide ex_system ''/repo'' (gitignore_spec ex_system ''/repo'') [''LICENSE.md'', ''PRIVACY.md'']
     {''.py'', ''.pyc''} (get_project_specific_ignore_extensions ''python_backend'')
     ''/repo/broken.py'' = Submitted"
  by (simp_all add: decide_def ex_system_def basename_def splitext_ext_def SENSITIVE_FILES_def
                    get_project_specific_ignore_extensions_def lower_def lower_char_def Let_def)

lemma ex_broken:
  "get_file_info ex_system ex_parsers ''/repo/broken.py'' ''/repo'' ''python_backend''
     ''python'' False =
   \<lparr>relative_path = ''broken.py'', filename = ''broken.py'', extension = ''.py'',
    size_bytes = 0, full_content = ''<<Error reading file: Permission denied>>'',
    tokenization = Tokenization_Error ''no encoding'', file_llm_hint = [],
    ast_analysis = Some (Analysis_Error ''Tree-sitter parse error: parse failed'')\<rparr>"
  by (simp add: get_file_info_def ex_system_def ex_parsers_def ex_content_def basename_def
                splitext_ext_def lower_def lower_char_def Let_def tokenize_content_def
                analyze_file_def analyze_python_file_treesitter_def with_dependency_graph_def)

lemma ex_scan_paths:
  "map relative_path
     (files (scan_repository ex_system ex_parsers ''/repo'' (gitignore_spec ex_system ''/repo'')
               [''LICENSE.md'', ''PRIVACY.md''] {''.py'', ''.pyc''} ''python_backend'' False)) =
   [''broken.py'', ''a.py'']"
proof -
  have ord: "completion_order ex_system ''/repo'' = [1]" by (simp add: ex_system_def)
  have un: "unhandled ex_system p = None" for p by (simp add: ex_system_def)
  have rel: "relative_path (get_file_info ex_system ex_parsers p ''/repo'' pt lang h) =
               drop 6 p" for p pt lang h
    by (simp add: get_file_info_def Let_def ex_system_def eval_nat_numeral)
  show ?thesis
    by (simp add: scan_repository_files ex_walk ex_decide ord un rel Let_def o_def)
qed

lemma ex_ext_js: "lower (splitext_ext ''/repo/x.js'') = ''.js''"
  by (simp add: splitext_ext_def basename_def lower_def lower_char_def Let_def)

text \<open>
  Claim C4. For every candidate path the scan applies the exclusion filters in this order,
  stopping at the first that matches: the gitignore specification on the relative path, the
  CLI patterns on the basename, membership of the basename in the sensitive file names, the
  project-specific denied extensions, and a non-empty include list that lacks the
  extension. The decision taken is that of the first matching filter (a gitignore match
  decides whatever the later filters and their parameters are), a path is submitted exactly
  when no filter matches it, and every record in the result of a scan comes from a path
  that no filter matches.
\<close>

theorem exclusion_filters_in_order:
  "(decide sys repo spec pats incl pext p = Ignored_by_gitignore
      \<longleftrightarrow> gitignore_match sys repo spec p) \<and>
   ((\<exists>pat. decide sys repo spec pats incl pext p = Ignored_by_CLI_pattern pat)
      \<longleftrightarrow> \<not> gitignore_match sys repo spec p \<and> cli_match sys pats p) \<and>
   (decide sys repo spec pats incl pext p = Ignored_sensitive_file
      \<longleftrightarrow> \<not> gitignore_match sys repo spec p \<and> \<not> cli_match sys pats p \<and> sensitive_match p) \<and>
   ((\<exists>e. decide sys repo spec pats incl pext p = Ignored_project_extension e)
      \<longleftrightarrow> \<not> gitignore_match sys repo spec p \<and> \<not> cli_match sys pats p \<and>
          \<not> sensitive_match p \<and> project_extension_match pext p) \<and>
   (decide sys repo spec pats incl pext p = Excluded_by_include_extensions
      \<longleftrightarrow> \<not> gitignore_match sys repo spec p \<and> \<not> cli_match sys pats p \<and>
          \<not> sensitive_match p \<and> \<not> project_extension_match pext p \<and> allow_list_match incl p) \<and>
   (decide sys repo spec pats incl pext p = Submitted
      \<longleftrightarrow> \<not> gitignore_match sys repo spec p \<and> \<not> cli_match sys pats p \<and>
          \<not> sensitive_match p \<and> \<not> project_extension_match pext p \<and>
          \<not> allow_list_match incl p) \<and>
   (gitignore_match sys repo spec p \<longrightarrow>
      decide (sys\<lparr>fnmatch := fm\<rparr>) repo spec pats' incl' pext' p = Ignored_by_gitignore) \<and>
   submit_loop sys repo spec pats incl pext all_files =
     filter (\<lambda>p. \<not> gitignore_match sys repo spec p \<and> \<not> cli_match sys pats p \<and>
                 \<not> sensitive_match p \<and> \<not> project_extension_match pext p \<and>
                 \<not> allow_list_match incl p) all_files \<and>
   (\<forall>fi \<in> set (files (scan_repository sys ps repo spec pats incl pt h)).
      \<exists>q. fi = get_file_info sys ps q repo pt ''python'' h \<and>
          \<not> gitignore_match sys repo spec q \<and> \<not> cli_match sys pats q \<and>
          \<not> sensitive_match q \<and>
          \<not> project_extension_match (get_project_specific_ignore_extensions pt) q \<and>
          \<not> allow_list_match incl q)"
proof -
  let ?d = "decide sys repo spec pats incl pext p"
  have split_cli:
    "(\<exists>pat. first_cli_match sys (basename p) pats = Some pat) \<longleftrightarrow> cli_match sys pats p"
    using first_cli_match_None[of sys "basename p" pats] by (auto simp: cli_match_def)
  have g: "?d = Ignored_by_gitignore \<longleftrightarrow> gitignore_match sys repo spec p"
    by (auto simp: decide_cases split: option.splits)
  have c: "(\<exists>pat. ?d = Ignored_by_CLI_pattern pat)
             \<longleftrightarrow> \<not> gitignore_match sys repo spec p \<and> cli_match sys pats p"
    using split_cli by (auto simp: decide_cases split: option.splits)
  have s: "?d = Ignored_sensitive_file
             \<longleftrightarrow> \<not> gitignore_match sys repo spec p \<and> \<not> cli_match sys pats p \<and> sensitive_match p"
    using split_cli by (auto simp: decide_cases split: option.splits)
  have e: "(\<exists>e. ?d = Ignored_project_extension e)
             \<longleftrightarrow> \<not> gitignore_match sys repo spec p \<and> \<not> cli_match sys pats p \<and>
                 \<not> sensitive_match p \<and> project_extension_match pext p"
    using split_cli by (auto simp: decide_cases split: option.splits)
  have a: "?d = Excluded_by_include_extensions
             \<longleftrightarrow> \<not> gitignore_match sys repo spec p \<and> \<not> cli_match sys pats p \<and>
                 \<not> sensitive_match p \<and> \<not> project_extension_match pext p \<and>
                 allow_list_match incl p"
    using split_cli by (auto simp: decide_cases split: option.splits)
  have short: "decide (sys\<lparr>fnmatch := fm\<rparr>) repo spec pats' incl' pext' p = Ignored_by_gitignore"
    if "gitignore_match sys repo spec p"
    using that by (simp add: decide_def gitignore_match_def)
  have sub: "submit_loop sys repo spec pats incl pext all_files =
     filter (\<lambda>p. \<not> gitignore_match sys repo spec p \<and> \<not> cli_match sys pats p \<and>
                 \<not> sensitive_match p \<and> \<not> project_extension_match pext p \<and>
                 \<not> allow_list_match incl p) all_files"
    by (simp add: submit_loop_filter decide_Submitted)
  have scan: "\<exists>q. fi = get_file_info sys ps q repo pt ''python'' h \<and>
          \<not> gitignore_match sys repo spec q \<and> \<not> cli_match sys pats q \<and>
          \<not> sensitive_match q \<and>
          \<not> project_extension_match (get_project_specific_ignore_extensions pt) q \<and>
          \<not> allow_list_match incl q"
    if "fi \<in> set (files (scan_repository sys ps repo spec pats incl pt h))" for fi
  proof -
    let ?sub = "submit_loop sys repo spec pats incl (get_project_specific_ignore_extensions pt)
                  (walk sys spec repo repo (tree_at sys repo))"
    from that obtain q where
      q: "q \<in> set (as_completed (completion_order sys repo) ?sub)"
      and fi: "fi = get_file_info sys ps q repo pt ''python'' h"
      by (auto simp: scan_repository_files)
    from q have "q \<in># mset (as_completed (completion_order sys repo) ?sub)" by simp
    then have "q \<in> set ?sub" by (simp add: mset_as_completed)
    then have "decide sys repo spec pats incl (get_project_specific_ignore_extensions pt) q
                 = Submitted"
      by (simp add: submit_loop_filter)
    with fi show ?thesis by (auto simp: decide_Submitted)
  qed
  from g c s e a decide_Submitted[of sys repo spec pats incl pext p] short sub scan
  show ?thesis by blast
qed

theorem exclusion_filters_in_order_witness:
  "gitignore_match ex_system ''/repo'' (gitignore_spec ex_system ''/repo'') ''/repo/skip.log'' \<and>
   decide ex_system ''/repo'' (gitignore_spec ex_system ''/repo'') [''LICENSE.md'', ''PRIVACY.md'']
     {''.py'', ''.pyc''} (get_project_specific_ignore_extensions ''python_backend'')
     ''/repo/skip.log'' = Ignored_by_gitignore \<and>
   decide (ex_system\<lparr>fnmatch := (\<lambda>n pat. True)\<rparr>) ''/repo'' (gitignore_spec ex_system ''/repo'')
     [''*''] {} {''.log''} ''/repo/skip.log'' = Ignored_by_gitignore \<and>
   decide ex_system ''/repo'' (gitignore_spec ex_system ''/repo'') [''LICENSE.md'', ''PRIVACY.md'']
     {''.py'', ''.pyc''} (get_project_specific_ignore_extensions ''python_backend'')
     ''/repo/LICENSE.md'' = Ignored_by_CLI_pattern ''LICENSE.md'' \<and>
   decide ex_system ''/repo'' (gitignore_spec ex_system ''/repo'') [''LICENSE.md'', ''PRIVACY.md'']
     {''.py'', ''.pyc''} (get_project_specific_ignore_extensions ''python_backend'')
     ''/repo/.env'' = Ignored_sensitive_file \<and>
   decide ex_system ''/repo'' (gitignore_spec ex_system ''/repo'') [''LICENSE.md'', ''PRIVACY.md'']
     {''.py'', ''.pyc''} (get_project_specific_ignore_extensions ''python_backend'')
     ''/repo/b.pyc'' = Ignored_project_extension ''.pyc'' \<and>
   decide ex_system ''/repo'' (gitignore_spec ex_system ''/repo'') [''LICENSE.md'', ''PRIVACY.md'']
     {''.py'', ''.pyc''} (get_project_specific_ignore_extensions ''python_backend'')
     ''/repo/notes.md'' = Excluded_by_include_extensions \<and>
   decide ex_system ''/repo'' (gitignore_spec ex_system ''/repo'') [''LICENSE.md'', ''PRIVACY.md'']
     {''.py'', ''.pyc''} (get_project_specific_ignore_extensions ''python_backend'')
     ''/repo/a.py'' = Submitted \<and>
   submit_loop ex_system ''/repo'' (gitignore_spec ex_system ''/repo'')
     [''LICENSE.md'', ''PRIVACY.md''] {''.py'', ''.pyc''}
     (get_project_specific_ignore_extensions ''python_backend'')
     [''/repo/a.py'', ''/repo/skip.log'', ''/repo/LICENSE.md'', ''/repo/.env'', ''/repo/b.pyc'',
      ''/repo/notes.md'', ''/repo/broken.py''] = [''/repo/a.py'', ''/repo/broken.py''] \<and>
   map relative_path
     (files (scan_repository ex_system ex_parsers ''/repo'' (gitignore_spec ex_system ''/repo'')
               [''LICENSE.md'', ''PRIVACY.md''] {''.py'', ''.pyc''} ''python_backend'' False)) =
     [''broken.py'', ''a.py'']"
proof -
  have g: "gitignore_match ex_system ''/repo'' (gitignore_spec ex_system ''/repo'')
             ''/repo/skip.log''"
    by (simp add: gitignore_match_def ex_system_def)
  from exclusion_filters_in_order
         [of ex_system "''/repo''" "gitignore_spec ex_system ''/repo''"
             "[''LICENSE.md'', ''PRIVACY.md'']" "{''.py'', ''.pyc''}"
             "get_project_specific_ignore_extensions ''python_backend''" "''/repo/skip.log''"
             "\<lambda>n pat. True" "[''*'']" "{}" "{''.log''}"]
  have short: "decide (ex_system\<lparr>fnmatch := (\<lambda>n pat. True)\<rparr>) ''/repo''
                 (gitignore_spec ex_system ''/repo'') [''*''] {} {''.log''} ''/repo/skip.log''
               = Ignored_by_gitignore"
    using g by blast
  show ?thesis
    by (simp add: g short ex_decide ex_scan_paths)
qed

lemma tokenize_content_read_text:
  "tokenize_content (sys\<lparr>read_text := f\<rparr>) content = tokenize_content sys content"
  by (simp add: tokenize_content_def split: sum.splits)

text \<open>
  Claim C6, amended. A tokenizer failure and a parser failure (or a JavaScript parser that
  is not available) are kept as an error dictionary in the \<open>tokenization\<close> and the
  \<open>ast_analysis\<close> field of the file's record. An unreadable file gets no error value: the
  text of the exception is wrapped as \<open><<Error reading file: ...>>\<close> and stored as
  \<open>full_content\<close>, and the record is the one of a readable file with that text as its
  content. A size that cannot be read is recorded as 0, and decoding cannot fail, since
  undecodable bytes are replaced by the reader. The scan goes on: its files are the records
  of all submitted paths whose job did not raise, in completion order, and every submitted
  path completes.
\<close>

theorem per_file_failures_kept_in_record:
  "(getsize sys p = None \<longrightarrow>
      size_bytes (get_file_info sys ps p base pt language h) = 0) \<and>
   (\<forall>e. read_text sys p = Inl e \<longrightarrow>
      full_content (get_file_info sys ps p base pt language h) =
        ''<<Error reading file: '' @ e @ ''>>'' \<and>
      get_file_info sys ps p base pt language h =
        get_file_info (sys\<lparr>read_text := (\<lambda>q. Inr (''<<Error reading file: '' @ e @ ''>>''))\<rparr>)
          ps p base pt language h) \<and>
   (\<forall>e. tiktoken_encode sys (full_content (get_file_info sys ps p base pt language h)) = Inl e \<longrightarrow>
      tokenization (get_file_info sys ps p base pt language h) = Tokenization_Error e) \<and>
   (\<forall>ids e. tiktoken_encode sys (full_content (get_file_info sys ps p base pt language h)) = Inr ids \<and>
            tiktoken_decode sys ids = Inl e \<longrightarrow>
      tokenization (get_file_info sys ps p base pt language h) = Tokenization_Error e) \<and>
   (\<forall>e. pt = ''python_backend'' \<and>
        extension (get_file_info sys ps p base pt language h) = ''.py'' \<and>
        parser_py ps (full_content (get_file_info sys ps p base pt language h)) = Inl e \<longrightarrow>
      ast_analysis (get_file_info sys ps p base pt language h) =
        Some (Analysis_Error (''Tree-sitter parse error: '' @ e))) \<and>
   (\<forall>parse e. pt \<in> {''javascript'', ''typescript''} \<and>
        extension (get_file_info sys ps p base pt language h) \<in> JS_TS_EXTENSIONS \<and>
        parser_js ps = Some parse \<and>
        parse (full_content (get_file_info sys ps p base pt language h)) = Inl e \<longrightarrow>
      ast_analysis (get_file_info sys ps p base pt language h) =
        Some (Analysis_Error (''Tree-sitter parse error: '' @ e))) \<and>
   (pt \<in> {''javascript'', ''typescript''} \<and>
        extension (get_file_info sys ps p base pt language h) \<in> JS_TS_EXTENSIONS \<and>
        parser_js ps = None \<longrightarrow>
      ast_analysis (get_file_info sys ps p base pt language h) =
        Some (Analysis_Error ''JavaScript parser is not available.'')) \<and>
   files (scan_repository sys ps repo spec pats incl pt h) =
     map (\<lambda>q. get_file_info sys ps q repo pt ''python'' h)
       (filter (\<lambda>q. unhandled sys q = None)
          (as_completed (completion_order sys repo)
             (submit_loop sys repo spec pats incl (get_project_specific_ignore_extensions pt)
                (walk sys spec repo repo (tree_at sys repo))))) \<and>
   mset (as_completed (completion_order sys repo)
           (submit_loop sys repo spec pats incl (get_project_specific_ignore_extensions pt)
              (walk sys spec repo repo (tree_at sys repo)))) =
     mset (submit_loop sys repo spec pats incl (get_project_specific_ignore_extensions pt)
             (walk sys spec repo repo (tree_at sys repo)))"
proof -
  let ?fi = "get_file_info sys ps p base pt language h"
  have size: "getsize sys p = None \<longrightarrow> size_bytes ?fi = 0"
    by (simp add: get_file_info_def Let_def)
  have content: "\<forall>e. read_text sys p = Inl e \<longrightarrow>
                   full_content ?fi = ''<<Error reading file: '' @ e @ ''>>'' \<and>
                   ?fi = get_file_info
                           (sys\<lparr>read_text := (\<lambda>q. Inr (''<<Error reading file: '' @ e @ ''>>''))\<rparr>)
                           ps p base pt language h"
    by (simp add: get_file_info_def Let_def tokenize_content_read_text)
  have tok: "tokenization ?fi = tokenize_content sys (full_content ?fi)"
    by (simp add: get_file_info_def Let_def)
  have enc: "\<forall>e. tiktoken_encode sys (full_content ?fi) = Inl e \<longrightarrow>
               tokenization ?fi = Tokenization_Error e"
    unfolding tok by (simp add: tokenize_content_def)
  have dec: "\<forall>ids e. tiktoken_encode sys (full_content ?fi) = Inr ids \<and>
               tiktoken_decode sys ids = Inl e \<longrightarrow> tokenization ?fi = Tokenization_Error e"
    unfolding tok by (simp add: tokenize_content_def)
  have py: "\<forall>e. pt = ''python_backend'' \<and> extension ?fi = ''.py'' \<and>
               parser_py ps (full_content ?fi) = Inl e \<longrightarrow>
               ast_analysis ?fi = Some (Analysis_Error (''Tree-sitter parse error: '' @ e))"
    by (auto simp: get_file_info_def Let_def analyze_file_def lower_def lower_char_def
                   analyze_python_file_treesitter_def with_dependency_graph_def)
  have low: "lower ''javascript'' = ''javascript''" "lower ''javascript'' \<noteq> ''python''"
    by (simp_all add: lower_def lower_char_def)
  have js: "\<forall>parse e. pt \<in> {''javascript'', ''typescript''} \<and>
               extension ?fi \<in> JS_TS_EXTENSIONS \<and> parser_js ps = Some parse \<and>
               parse (full_content ?fi) = Inl e \<longrightarrow>
               ast_analysis ?fi = Some (Analysis_Error (''Tree-sitter parse error: '' @ e))"
    by (auto simp: get_file_info_def Let_def analyze_file_def low
                   analyze_javascript_file_treesitter_def with_dependency_graph_def)
  have nojs: "pt \<in> {''javascript'', ''typescript''} \<and> extension ?fi \<in> JS_TS_EXTENSIONS \<and>
               parser_js ps = None \<longrightarrow>
               ast_analysis ?fi = Some (Analysis_Error ''JavaScript parser is not available.'')"
    by (auto simp: get_file_info_def Let_def analyze_file_def low
                   analyze_javascript_file_treesitter_def with_dependency_graph_def)
  from size content enc dec py js nojs show ?thesis
    by (simp only: scan_repository_files mset_as_completed simp_thms)
qed

theorem per_file_failures_kept_in_record_witness:
  "getsize ex_system ''/repo/broken.py'' = None \<and>
   read_text ex_system ''/repo/broken.py'' = Inl ''Permission denied'' \<and>
   tiktoken_encode ex_system ''<<Error reading file: Permission denied>>'' = Inl ''no encoding'' \<and>
   parser_py ex_parsers ''<<Error reading file: Permission denied>>'' = Inl ''parse failed'' \<and>
   get_file_info ex_system ex_parsers ''/repo/broken.py'' ''/repo'' ''python_backend''
       ''python'' False =
     \<lparr>relative_path = ''broken.py'', filename = ''broken.py'', extension = ''.py'',
      size_bytes = 0, full_content = ''<<Error reading file: Permission denied>>'',
      tokenization = Tokenization_Error ''no encoding'', file_llm_hint = [],
      ast_analysis = Some (Analysis_Error ''Tree-sitter parse error: parse failed'')\<rparr> \<and>
   get_file_info ex_system ex_parsers ''/repo/broken.py'' ''/repo'' ''python_backend''
       ''python'' False =
     get_file_info
       (ex_system\<lparr>read_text := (\<lambda>q. Inr (''<<Error reading file: '' @ ''Permission denied'' @ ''>>''))\<rparr>)
       ex_parsers ''/repo/broken.py'' ''/repo'' ''python_backend'' ''python'' False \<and>
   tokenization
     (get_file_info
        (ex_system\<lparr>tiktoken_encode := (\<lambda>s. Inr [1, 2]), tiktoken_decode := (\<lambda>ids. Inl ''bad token'')\<rparr>)
        ex_parsers ''/repo/a.py'' ''/repo'' ''python_backend'' ''python'' False) =
     Tokenization_Error ''bad token'' \<and>
   ast_analysis
     (get_file_info ex_system (ex_parsers\<lparr>parser_js := Some (\<lambda>c. Inl ''js failed'')\<rparr>)
        ''/repo/x.js'' ''/repo'' ''javascript'' ''python'' False) =
     Some (Analysis_Error ''Tree-sitter parse error: js failed'') \<and>
   ast_analysis
     (get_file_info ex_system (ex_parsers\<lparr>parser_js := None\<rparr>)
        ''/repo/x.js'' ''/repo'' ''javascript'' ''python'' False) =
     Some (Analysis_Error ''JavaScript parser is not available.'') \<and>
   map relative_path
     (files (scan_repository ex_system ex_parsers ''/repo'' (gitignore_spec ex_system ''/repo'')
               [''LICENSE.md'', ''PRIVACY.md''] {''.py'', ''.pyc''} ''python_backend'' False)) =
     [''broken.py'', ''a.py'']"
proof -
  let ?sys2 = "ex_system\<lparr>tiktoken_encode := (\<lambda>s. Inr [1, 2]),
                          tiktoken_decode := (\<lambda>ids. Inl ''bad token'')\<rparr>"
  let ?ps2 = "ex_parsers\<lparr>parser_js := Some (\<lambda>c. Inl ''js failed'')\<rparr>"
  let ?ps3 = "ex_parsers\<lparr>parser_js := None\<rparr>"
  have env:
    "getsize ex_system ''/repo/broken.py'' = None"
    "read_text ex_system ''/repo/broken.py'' = Inl ''Permission denied''"
    "tiktoken_encode ex_system ''<<Error reading file: Permission denied>>'' = Inl ''no encoding''"
    by (simp_all add: ex_system_def)
  have prs: "parser_py ex_parsers ''<<Error reading file: Permission denied>>'' = Inl ''parse failed''"
    by (simp add: ex_parsers_def ex_content_def)
  have enc2: "tiktoken_encode ?sys2
                (full_content (get_file_info ?sys2 ex_parsers ''/repo/a.py'' ''/repo''
                                 ''python_backend'' ''python'' False)) = Inr [1, 2]"
    and dec2: "tiktoken_decode ?sys2 [1, 2] = Inl ''bad token''"
    by simp_all
  have t2: "tokenization (get_file_info ?sys2 ex_parsers ''/repo/a.py'' ''/repo''
                            ''python_backend'' ''python'' False) = Tokenization_Error ''bad token''"
    by (rule per_file_failures_kept_in_record
               [of ?sys2 "''/repo/a.py''" ex_parsers "''/repo''" "''python_backend''" "''python''"
                   False,
                THEN conjunct2, THEN conjunct2, THEN conjunct2, THEN conjunct1, rule_format,
                OF conjI, OF enc2 dec2])
  have extjs: "extension (get_file_info ex_system ps ''/repo/x.js'' ''/repo'' ''javascript''
                            ''python'' False) \<in> JS_TS_EXTENSIONS" for ps
    by (simp add: get_file_info_def Let_def ex_ext_js JS_TS_EXTENSIONS_def)
  have isjs: "''javascript'' \<in> {''javascript'', ''typescript''}" by simp
  have pj2: "parser_js ?ps2 = Some (\<lambda>c. Inl ''js failed'')" and pj3: "parser_js ?ps3 = None"
    by simp_all
  have fail2: "(\<lambda>c. Inl ''js failed'' :: string + node)
                 (full_content (get_file_info ex_system ?ps2 ''/repo/x.js'' ''/repo''
                                  ''javascript'' ''python'' False)) = Inl ''js failed''"
    by simp
  have a2: "ast_analysis (get_file_info ex_system ?ps2 ''/repo/x.js'' ''/repo'' ''javascript''
                            ''python'' False) =
              Some (Analysis_Error (''Tree-sitter parse error: '' @ ''js failed''))"
    by (rule per_file_failures_kept_in_record
               [of ex_system "''/repo/x.js''" ?ps2 "''/repo''" "''javascript''" "''python''" False,
                THEN conjunct2, THEN conjunct2, THEN conjunct2, THEN conjunct2, THEN conjunct2,
                THEN conjunct1, rule_format,
                OF conjI[OF isjs conjI[OF extjs conjI[OF pj2 fail2]]]])
  have a3: "ast_analysis (get_file_info ex_system ?ps3 ''/repo/x.js'' ''/repo'' ''javascript''
                            ''python'' False) =
              Some (Analysis_Error ''JavaScript parser is not available.'')"
    by (rule per_file_failures_kept_in_record
               [of ex_system "''/repo/x.js''" ?ps3 "''/repo''" "''javascript''" "''python''" False,
                THEN conjunct2, THEN conjunct2, THEN conjunct2, THEN conjunct2, THEN conjunct2,
                THEN conjunct2, THEN conjunct1, rule_format,
                OF conjI[OF isjs conjI[OF extjs pj3]]])
  from a2 have a2': "ast_analysis (get_file_info ex_system ?ps2 ''/repo/x.js'' ''/repo''
                            ''javascript'' ''python'' False) =
              Some (Analysis_Error ''Tree-sitter parse error: js failed'')"
    by simp
  have s0: "size_bytes (get_file_info ex_system ex_parsers ''/repo/broken.py'' ''/repo''
                          ''python_backend'' ''python'' False) = 0"
    by (rule per_file_failures_kept_in_record
               [of ex_system "''/repo/broken.py''" ex_parsers "''/repo''" "''python_backend''"
                   "''python''" False,
                THEN conjunct1, rule_format, OF env(1)])
  have inband:
    "get_file_info ex_system ex_parsers ''/repo/broken.py'' ''/repo'' ''python_backend''
       ''python'' False =
     get_file_info
       (ex_system\<lparr>read_text := (\<lambda>q. Inr (''<<Error reading file: '' @ ''Permission denied'' @ ''>>''))\<rparr>)
       ex_parsers ''/repo/broken.py'' ''/repo'' ''python_backend'' ''python'' False"
    by (rule per_file_failures_kept_in_record
               [of ex_system "''/repo/broken.py''" ex_parsers "''/repo''" "''python_backend''"
                   "''python''" False,
                THEN conjunct2, THEN conjunct1, rule_format, OF env(2), THEN conjunct2])
  show ?thesis
    using s0 inband by (simp only: env prs ex_broken t2 a2' a3 ex_scan_paths simp_thms)
qed

lemma ex_unreadable:
  "get_file_info ex_tokenizing_system ex_lenient_parsers ''/repo/broken.py'' ''/repo''
     ''python_backend'' ''python'' False =
   \<lparr>relative_path = ''broken.py'', filename = ''broken.py'', extension = ''.py'',
    size_bytes = 0, full_content = ''<<Error reading file: Permission denied>>'',
    tokenization = Tokenization [7] 1 ''x'', file_llm_hint = [],
    ast_analysis = Some (Analysis [] [] (Some []))\<rparr>"
  by (simp add: get_file_info_def ex_tokenizing_system_def ex_system_def ex_lenient_parsers_def
                basename_def splitext_ext_def lower_def lower_char_def Let_def
                tokenize_content_def analyze_file_def analyze_python_file_treesitter_def
                with_dependency_graph_def visit_def generate_dependency_graph_def)

text \<open>
  Claim C6 as stated does not hold for an unreadable file. With a working tokenizer
  and parser the record of such a file carries no error value in any field, it equals the
  record of a readable file whose content is the marker text, and the marker text is what
  the chunk assembler passes on as the file's text.
\<close>

theorem unreadable_file_has_no_error_value:
  "read_text ex_tokenizing_system ''/repo/broken.py'' = Inl ''Permission denied'' \<and>
   get_file_info ex_tokenizing_system ex_lenient_parsers ''/repo/broken.py'' ''/repo''
     ''python_backend'' ''python'' False =
   \<lparr>relative_path = ''broken.py'', filename = ''broken.py'', extension = ''.py'',
    size_bytes = 0, full_content = ''<<Error reading file: Permission denied>>'',
    tokenization = Tokenization [7] 1 ''x'', file_llm_hint = [],
    ast_analysis = Some (Analysis [] [] (Some []))\<rparr> \<and>
   \<not> carries_error_value
       (get_file_info ex_tokenizing_system ex_lenient_parsers ''/repo/broken.py'' ''/repo''
          ''python_backend'' ''python'' False) \<and>
   get_file_info ex_tokenizing_system ex_lenient_parsers ''/repo/broken.py'' ''/repo''
     ''python_backend'' ''python'' False =
   get_file_info
     (ex_tokenizing_system\<lparr>read_text := (\<lambda>q. Inr ''<<Error reading file: Permission denied>>'')\<rparr>)
     ex_lenient_parsers ''/repo/broken.py'' ''/repo'' ''python_backend'' ''python'' False \<and>
   map source
     (extract_texts_for_embedding
        [get_file_info ex_tokenizing_system ex_lenient_parsers ''/repo/broken.py'' ''/repo''
           ''python_backend'' ''python'' False]) =
   [''<<Error reading file: Permission denied>>'']"
proof -
  have r: "read_text ex_tokenizing_system ''/repo/broken.py'' = Inl ''Permission denied''"
    by (simp add: ex_tokenizing_system_def ex_system_def)
  have same: "get_file_info
     (ex_tokenizing_system\<lparr>read_text := (\<lambda>q. Inr ''<<Error reading file: Permission denied>>'')\<rparr>)
     ex_lenient_parsers ''/repo/broken.py'' ''/repo'' ''python_backend'' ''python'' False =
   \<lparr>relative_path = ''broken.py'', filename = ''broken.py'', extension = ''.py'',
    size_bytes = 0, full_content = ''<<Error reading file: Permission denied>>'',
    tokenization = Tokenization [7] 1 ''x'', file_llm_hint = [],
    ast_analysis = Some (Analysis [] [] (Some []))\<rparr>"
    by (simp add: get_file_info_def ex_tokenizing_system_def ex_system_def ex_lenient_parsers_def
                  basename_def splitext_ext_def lower_def lower_char_def Let_def
                  tokenize_content_def analyze_file_def analyze_python_file_treesitter_def
                  with_dependency_graph_def visit_def generate_dependency_graph_def)
  show ?thesis
    by (simp add: r ex_unreadable same carries_error_value_def extract_texts_for_embedding_def
                  str_or_def get_functions_def get_classes_def)
qed

end
